theory Spec2Isabelle
  imports Main "HOL-Library.AList"
begin

section \<open>Python strings and errors\<close>

text \<open>
  A Python \<open>str\<close> is a sequence of Unicode code points; it is modelled as the list of
  its code points. ASCII literals of the source are written with \<open>str\<close>; the Cyrillic
  literals are written out as code points.
\<close>

type_synonym pystr = "nat list"

definition str :: "string \<Rightarrow> pystr" where
  "str s = map of_char s"

datatype pyerror =
    ValueError
  | IndexError
  | KeyError pystr
  | TypeError
  | ProgrammingError
  | OperationalError
  | IntegrityError
  | OverflowError
  | UnicodeEncodeError

text \<open>\<open>s.startswith(p)\<close>\<close>

fun startswith :: "'a list \<Rightarrow> 'a list \<Rightarrow> bool" where
  "startswith s [] = True"
| "startswith [] (p # ps) = False"
| "startswith (c # cs) (p # ps) = (c = p \<and> startswith cs ps)"

text \<open>\<open>s.removeprefix(p)\<close>\<close>

definition removeprefix :: "'a list \<Rightarrow> 'a list \<Rightarrow> 'a list" where
  "removeprefix s p = (if startswith s p then drop (length p) s else s)"

text \<open>\<open>sub in s\<close> for two strings: \<open>sub\<close> occurs in \<open>s\<close> as a contiguous run.\<close>

fun contains :: "'a list \<Rightarrow> 'a list \<Rightarrow> bool" where
  "contains sub [] = (sub = [])"
| "contains sub (c # cs) = (startswith (c # cs) sub \<or> contains sub cs)"

text \<open>
  The leftmost occurrence of a separator: the text before it and the text after it.
\<close>

fun find_sep :: "'a list \<Rightarrow> 'a list \<Rightarrow> ('a list \<times> 'a list) option" where
  "find_sep sep [] = (if sep = [] then Some ([], []) else None)"
| "find_sep sep (c # cs) =
     (if startswith (c # cs) sep then Some ([], drop (length sep) (c # cs))
      else map_option (\<lambda>(b, a). (c # b, a)) (find_sep sep cs))"

text \<open>
  \<open>s.split(sep, 1)\<close> and \<open>s.rsplit(sep, 1)\<close>: one cut at the leftmost (rightmost)
  occurrence of the separator, or the whole string alone when there is none. Every
  separator of the program is a non-empty literal (Python raises on an empty one).
\<close>

definition split1 :: "'a list \<Rightarrow> 'a list \<Rightarrow> 'a list list" where
  "split1 sep s = (case find_sep sep s of None \<Rightarrow> [s] | Some (b, a) \<Rightarrow> [b, a])"

definition rsplit1 :: "'a list \<Rightarrow> 'a list \<Rightarrow> 'a list list" where
  "rsplit1 sep s =
     (case find_sep (rev sep) (rev s) of None \<Rightarrow> [s] | Some (b, a) \<Rightarrow> [rev a, rev b])"

text \<open>\<open>s.split(d)\<close> for a one-character separator: every occurrence cuts.\<close>

fun split_acc :: "'a \<Rightarrow> 'a list \<Rightarrow> 'a list \<Rightarrow> 'a list list" where
  "split_acc d cur [] = [cur]"
| "split_acc d cur (c # cs) =
     (if c = d then cur # split_acc d [] cs else split_acc d (cur @ [c]) cs)"

definition split_char :: "'a \<Rightarrow> 'a list \<Rightarrow> 'a list list" where
  "split_char d s = split_acc d [] s"

text \<open>\<open>s.split()\<close>: the maximal runs of non-whitespace characters.\<close>

definition isspace :: "nat \<Rightarrow> bool" where
  "isspace c \<longleftrightarrow>
     c \<in> set [9, 10, 11, 12, 13, 28, 29, 30, 31, 32, 133, 160, 5760, 8192, 8193, 8194,
       8195, 8196, 8197, 8198, 8199, 8200, 8201, 8202, 8232, 8233, 8239, 8287, 12288]"

fun split_ws_acc :: "pystr \<Rightarrow> pystr \<Rightarrow> pystr list" where
  "split_ws_acc cur [] = (if cur = [] then [] else [cur])"
| "split_ws_acc cur (c # cs) =
     (if isspace c then (if cur = [] then split_ws_acc [] cs else cur # split_ws_acc [] cs)
      else split_ws_acc (cur @ [c]) cs)"

definition split_ws :: "pystr \<Rightarrow> pystr list" where
  "split_ws s = split_ws_acc [] s"

text \<open>\<open>sep.join(xs)\<close>\<close>

fun join :: "'a list \<Rightarrow> 'a list list \<Rightarrow> 'a list" where
  "join sep [] = []"
| "join sep [x] = x"
| "join sep (x # y # ys) = x @ sep @ join sep (y # ys)"

text \<open>\<open>xs.index(x)\<close>; \<open>None\<close> stands for the \<open>ValueError\<close> of a missing element.\<close>

fun index_of :: "'a \<Rightarrow> 'a list \<Rightarrow> nat option" where
  "index_of x [] = None"
| "index_of x (y # ys) = (if x = y then Some 0 else map_option Suc (index_of x ys))"


section \<open>Entities of the registry\<close>

record opening_hour =
  weekday_from :: int
  weekday_to :: int
  time_from :: "pystr option"
  time_to :: "pystr option"

record location =
  coords :: "pystr option"
  metro :: pystr
  address :: pystr
  is_primary :: bool

text \<open>
  A service center is a dictionary. The keys set at creation are always present; the
  keys written by the enrichment of the detail page (\<open>title\<close>, \<open>phone\<close>, ...) are
  absent until then, which is \<open>None\<close> here. A Python set is a list without duplicates
  (its iteration order is not specified by Python; the model iterates it as stored).
\<close>

record service_center =
  sc_slug :: pystr
  sc_advantages :: "pystr list"
  sc_brands :: "pystr list"
  sc_devices :: "pystr list"
  sc_features :: "pystr list"
  sc_metros :: "pystr list"
  sc_gallery :: "pystr list"
  sc_locations :: "location list"
  sc_opening_hours :: "opening_hour list"
  sc_primary_address :: "pystr option"
  sc_title :: "pystr option"
  sc_phone :: "pystr option"
  sc_slogan :: "pystr option"
  sc_site_url :: "pystr option"
  sc_description :: "pystr option"
  sc_logo :: "pystr option"


section \<open>Opening hours\<close>

definition weekdays_names :: "pystr list" where
  "weekdays_names =
     [[1055, 1053], [1042, 1058], [1057, 1056], [1063, 1058], [1055, 1058],
      [1057, 1041], [1042, 1057]]"

text \<open>The two irregular tokens, \<open>Kruglosutochno\<close> (all hours) and \<open>Vykhodnoy\<close> (closed).\<close>

definition all_hours_token :: pystr where
  "all_hours_token =
     [1050, 1088, 1091, 1075, 1083, 1086, 1089, 1091, 1090, 1086, 1095, 1085, 1086]"

definition closed_token :: pystr where
  "closed_token = [1042, 1099, 1093, 1086, 1076, 1085, 1086, 1081]"

text \<open>
  \<open>add_opening_hour(sc, hour_tag)\<close>; the tag is given by \<open>hour_tag.get_text(strip=True)\<close>.
  The unpacking of \<open>rsplit\<close> and \<open>weekdays_names.index\<close> raise \<open>ValueError\<close>,
  \<open>times[0]\<close> on an empty list raises \<open>IndexError\<close>.
\<close>

definition add_opening_hour :: "service_center \<Rightarrow> pystr \<Rightarrow> pyerror + service_center" where
  "add_opening_hour sc text =
     (case rsplit1 (str '' - '') text of
        [wdays_text, times_text] \<Rightarrow>
          (let wdays = split_char (45::nat) wdays_text; tms = split_ws times_text in
           case those (map (\<lambda>day. index_of day weekdays_names) wdays) of
             None \<Rightarrow> Inl ValueError
           | Some idx \<Rightarrow>
               (let wdays = map (\<lambda>i. int i + 1) idx;
                    tms =
                      (if all_hours_token \<in> set tms
                         then [Some (str ''00:00''), Some (str ''00:00'')]
                       else if closed_token \<in> set tms then [None, None]
                       else map Some (filter (contains (str '':'')) tms))
                in if wdays = [] \<or> tms = [] then Inl IndexError
                   else Inr (sc\<lparr>sc_opening_hours := sc_opening_hours sc @
                     [\<lparr>weekday_from = hd wdays, weekday_to = last wdays,
                       time_from = hd tms, time_to = last tms\<rparr>]\<rparr>)))
      | _ \<Rightarrow> Inl ValueError)"


section \<open>Markup as the extractors read it\<close>

text \<open>
  The pages are parsed by BeautifulSoup, which is outside the program; a tag is given by
  what the program reads from it: \<open>get_text(strip=True)\<close>, the attributes, and the
  first \<open>img\<close> below it. An absent attribute or element is \<open>None\<close>.
\<close>

record img_tag =
  img_alt :: "pystr option"
  img_src :: "pystr option"
  img_data_src :: "pystr option"

record anchor_tag =
  tag_href :: pystr
  tag_img :: "img_tag option"
  tag_text :: pystr

text \<open>
  A listing card as \<open>parse_category_page\<close> builds it: the tags of \<open>metros_tags\<close> and
  \<open>hours_tags\<close> by their stripped texts, \<open>address_tag\<close> by its stripped text when
  the card has one.
\<close>

record sc_card =
  card_title :: pystr
  card_link :: pystr
  card_metros_tags :: "pystr list"
  card_hours_tags :: "pystr list"
  card_address_tag :: "pystr option"


section \<open>The registries\<close>

datatype category_type = Devices | Brands

record service =
  service_title :: pystr
  service_price :: pystr

text \<open>The keys \<open>brands\<close> and \<open>services\<close> exist in a category of type devices only.\<close>

record category =
  cat_title :: pystr
  cat_slug :: pystr
  cat_type :: category_type
  cat_thumbnail_url :: "pystr option"
  cat_is_popular :: bool
  cat_brands :: "pystr list option"
  cat_services :: "service list option"

text \<open>The dictionaries \<open>{'title': title}\<close> of metros, advantages and features.\<close>

record titled =
  title :: pystr

text \<open>
  The module-level dictionaries. A Python dictionary keeps its keys in insertion order
  and holds a key once: it is an association list, read with \<open>map_of\<close> and written
  with \<open>AList.update\<close>, which replaces the value of a present key in place and appends
  a new key at the end.
\<close>

record globals =
  advantages :: "(pystr \<times> titled) list"
  brands :: "(pystr \<times> category) list"
  devices :: "(pystr \<times> category) list"
  features :: "(pystr \<times> titled) list"
  metros :: "(pystr \<times> titled) list"
  service_centers :: "(pystr \<times> service_center) list"

definition empty_globals :: globals where
  "empty_globals = \<lparr>advantages = [], brands = [], devices = [], features = [],
     metros = [], service_centers = []\<rparr>"

text \<open>\<open>s.add(x)\<close> on a set\<close>

definition set_add :: "'a \<Rightarrow> 'a list \<Rightarrow> 'a list" where
  "set_add x s = (if x \<in> set s then s else s @ [x])"

text \<open>The truth value of an optional string: \<open>None\<close> and \<open>''\<close> are false.\<close>

definition truthy :: "pystr option \<Rightarrow> bool" where
  "truthy v = (case v of None \<Rightarrow> False | Some u \<Rightarrow> u \<noteq> [])"


section \<open>Categories\<close>

text \<open>The prefix \<open>Logotip\<close> of an image caption, without and with its space.\<close>

definition logo_word :: pystr where
  "logo_word = [1051, 1086, 1075, 1086, 1090, 1080, 1087]"

definition logo_prefix :: pystr where
  "logo_prefix = [1051, 1086, 1075, 1086, 1090, 1080, 1087, 32]"

text \<open>\<open>image['alt']\<close> raises \<open>KeyError\<close> on an image without caption.\<close>

definition get_category_title :: "anchor_tag \<Rightarrow> pyerror + pystr" where
  "get_category_title category_tag =
     (case tag_img category_tag of
        Some img \<Rightarrow>
          (case img_alt img of
             None \<Rightarrow> Inl (KeyError (str ''alt''))
           | Some alt \<Rightarrow>
               if startswith alt logo_word then Inr (removeprefix alt logo_prefix)
               else Inr (tag_text category_tag))
      | None \<Rightarrow> Inr (tag_text category_tag))"

text \<open>
  \<open>slugify\<close> is the function of the python-slugify package; the program is modelled
  for any such function, passed as the first argument.
\<close>

definition global_category :: "category_type \<Rightarrow> globals \<Rightarrow> (pystr \<times> category) list" where
  "global_category category_type g =
     (case category_type of Brands \<Rightarrow> brands g | Devices \<Rightarrow> devices g)"

definition set_global_category ::
  "category_type \<Rightarrow> (pystr \<times> category) list \<Rightarrow> globals \<Rightarrow> globals" where
  "set_global_category category_type d g =
     (case category_type of Brands \<Rightarrow> g\<lparr>brands := d\<rparr> | Devices \<Rightarrow> g\<lparr>devices := d\<rparr>)"

definition add_category ::
  "(pystr \<Rightarrow> pystr) \<Rightarrow> category_type \<Rightarrow> anchor_tag \<Rightarrow> globals
     \<Rightarrow> pyerror + (category \<times> globals)" where
  "add_category slugify category_type category_tag g =
     (case get_category_title category_tag of
        Inl e \<Rightarrow> Inl e
      | Inr t \<Rightarrow>
          (let category = \<lparr>cat_title = t, cat_slug = slugify t, cat_type = category_type,
                 cat_thumbnail_url = None, cat_is_popular = False,
                 cat_brands = None, cat_services = None\<rparr>;
               category =
                 (case tag_img category_tag of
                    Some thumbnail \<Rightarrow>
                      if truthy (img_src thumbnail)
                        then category\<lparr>cat_thumbnail_url := img_src thumbnail\<rparr>
                      else if truthy (img_data_src thumbnail)
                        then category\<lparr>cat_thumbnail_url := img_data_src thumbnail\<rparr>
                      else category
                  | None \<Rightarrow> category);
               category =
                 (if category_type = Devices
                    then category\<lparr>cat_brands := Some [], cat_services := Some []\<rparr>
                  else category)
           in if map_of (global_category category_type g) (cat_slug category) = None
                then Inr (category, set_global_category category_type
                  (AList.update (cat_slug category) category
                     (global_category category_type g)) g)
              else Inr (category, g)))"

definition add_popular_brand ::
  "(pystr \<Rightarrow> pystr) \<Rightarrow> anchor_tag \<Rightarrow> globals \<Rightarrow> pyerror + globals" where
  "add_popular_brand slugify brand_tag g =
     (case get_category_title brand_tag of
        Inl e \<Rightarrow> Inl e
      | Inr t \<Rightarrow>
          (let target_slug = slugify t
           in Inr (g\<lparr>brands :=
                map (\<lambda>(brand_slug, brand).
                       if brand_slug = target_slug
                         then (brand_slug, brand\<lparr>cat_is_popular := True\<rparr>)
                       else (brand_slug, brand))
                  (brands g)\<rparr>)))"


section \<open>Service centers\<close>

definition new_service_center :: "pystr \<Rightarrow> service_center" where
  "new_service_center slug =
     \<lparr>sc_slug = slug, sc_advantages = [], sc_brands = [], sc_devices = [],
      sc_features = [], sc_metros = [], sc_gallery = [], sc_locations = [],
      sc_opening_hours = [], sc_primary_address = None, sc_title = None,
      sc_phone = None, sc_slogan = None, sc_site_url = None, sc_description = None,
      sc_logo = None\<rparr>"

text \<open>\<open>sc[category['type']].add(category['slug'])\<close>\<close>

definition add_to_category_set :: "category \<Rightarrow> service_center \<Rightarrow> service_center" where
  "add_to_category_set category sc =
     (case cat_type category of
        Devices \<Rightarrow> sc\<lparr>sc_devices := set_add (cat_slug category) (sc_devices sc)\<rparr>
      | Brands \<Rightarrow> sc\<lparr>sc_brands := set_add (cat_slug category) (sc_brands sc)\<rparr>)"

text \<open>
  \<open>add_service_center(sc_card, category)\<close> returns the service center and the flag
  \<open>created\<close>. The object it returns is the one stored under the slug: the model returns
  its value and stores that value under the slug.
\<close>

definition add_service_center ::
  "(pystr \<Rightarrow> pystr) \<Rightarrow> sc_card \<Rightarrow> category \<Rightarrow> globals
     \<Rightarrow> (service_center \<times> bool) \<times> globals" where
  "add_service_center slugify sc_card category g =
     (let slug = slugify (card_title sc_card);
          (sc, created) =
            (case map_of (service_centers g) slug of
               Some sc \<Rightarrow> (sc, False)
             | None \<Rightarrow> (new_service_center slug, True));
          sc = add_to_category_set category sc
      in ((sc, created), g\<lparr>service_centers := AList.update slug sc (service_centers g)\<rparr>))"

text \<open>The prefix \<open>metro \<close> and the two station names of \<open>add_metro\<close>.\<close>

definition metro_prefix :: pystr where
  "metro_prefix = [1084, 1077, 1090, 1088, 1086, 32]"

definition novokrestovskaya :: pystr where
  "novokrestovskaya =
     [1053, 1086, 1074, 1086, 1082, 1088, 1077, 1089, 1090, 1086, 1074, 1089, 1082,
      1072, 1103]"

definition zenit :: pystr where
  "zenit = [1047, 1077, 1085, 1080, 1090]"

definition add_metro :: "service_center \<Rightarrow> pystr \<Rightarrow> globals \<Rightarrow> service_center \<times> globals" where
  "add_metro sc metro_text g =
     (let t = removeprefix metro_text metro_prefix;
          t = (if t = novokrestovskaya then zenit else t)
      in (sc\<lparr>sc_metros := set_add t (sc_metros sc)\<rparr>,
          g\<lparr>metros := AList.update t \<lparr>title = t\<rparr> (metros g)\<rparr>))"

definition add_advantage :: "service_center \<Rightarrow> pystr \<Rightarrow> globals \<Rightarrow> service_center \<times> globals" where
  "add_advantage sc t g =
     (sc\<lparr>sc_advantages := set_add t (sc_advantages sc)\<rparr>,
      g\<lparr>advantages := AList.update t \<lparr>title = t\<rparr> (advantages g)\<rparr>)"

definition add_feature :: "service_center \<Rightarrow> pystr \<Rightarrow> globals \<Rightarrow> service_center \<times> globals" where
  "add_feature sc t g =
     (sc\<lparr>sc_features := set_add t (sc_features sc)\<rparr>,
      g\<lparr>features := AList.update t \<lparr>title = t\<rparr> (features g)\<rparr>)"

text \<open>
  \<open>add_location(sc, location_tag, head_tag)\<close>: the tag by its stripped text, and
  \<open>coords_addresses\<close>, the pairs that \<open>re.findall\<close> reads from the page head, in their
  order. The loop has no \<open>break\<close>: every matching pair assigns \<open>coords\<close>.
\<close>

definition bind_coords :: "pystr \<times> pystr \<Rightarrow> location \<Rightarrow> location" where
  "bind_coords ca loc =
     (if contains (address loc) (snd ca) then loc\<lparr>coords := Some (fst ca)\<rparr> else loc)"

definition add_location ::
  "service_center \<Rightarrow> pystr \<Rightarrow> (pystr \<times> pystr) list \<Rightarrow> pyerror + service_center" where
  "add_location sc location_text coords_addresses =
     (case split1 (str ''-'') location_text of
        [metro_part, address_part] \<Rightarrow>
          (let loc = \<lparr>coords = None, metro = removeprefix metro_part metro_prefix,
                 address = address_part, is_primary = False\<rparr>;
               loc =
                 (if truthy (sc_primary_address sc)
                    then loc\<lparr>is_primary := contains (the (sc_primary_address sc)) address_part\<rparr>
                  else loc);
               loc = fold bind_coords coords_addresses loc
           in Inr (sc\<lparr>sc_locations := sc_locations sc @ [loc]\<rparr>))
      | _ \<Rightarrow> Inl ValueError)"



section \<open>Visiting a service center\<close>

text \<open>
  A loop whose body may raise: it stops at the first error, with the state the earlier
  iterations have left. (Every body below raises before it changes anything.)
\<close>

fun for_each :: "('a \<Rightarrow> 's \<Rightarrow> pyerror + 's) \<Rightarrow> 'a list \<Rightarrow> 's \<Rightarrow> pyerror option \<times> 's" where
  "for_each f [] s = (None, s)"
| "for_each f (x # xs) s =
     (case f x s of Inl e \<Rightarrow> (Some e, s) | Inr s' \<Rightarrow> for_each f xs s')"

text \<open>
  The detail page of a service center, as \<open>parse_service_center\<close> reads it after the
  request: the stripped texts of the selected tags, the pairs of \<open>re.findall\<close> on the
  head, the \<open>href\<close> of the phone link, for the site link the group of
  \<open>re.search(r'url=(.+)%', ...)\<close> (\<open>Some None\<close> when the link is there and the pattern
  does not match), and the paths that \<open>download_file\<close> returns for the logo and the
  gallery images.
\<close>

record page =
  page_locations :: "pystr list"
  page_coords_addresses :: "(pystr \<times> pystr) list"
  page_features :: "pystr list"
  page_advantages :: "pystr list"
  page_title :: "pystr option"
  page_phone :: "pystr option"
  page_slogan :: "pystr option"
  page_site_link :: "pystr option option"
  page_description :: "pystr option"
  page_logo :: "pystr option"
  page_gallery :: "pystr list"

definition address_prefix :: pystr where
  "address_prefix = [1040, 1076, 1088, 1077, 1089, 58, 32]"

definition service_center_prefix :: pystr where
  "service_center_prefix =
     [1057, 1077, 1088, 1074, 1080, 1089, 1085, 1099, 1081, 32, 1094, 1077, 1085, 1090,
      1088, 32]"

text \<open>
  A service center is created by \<open>add_service_center\<close> only, is stored under its slug
  from then on and is never replaced: the object \<open>sc\<close> that a coroutine holds is the
  one the registry holds under \<open>sc['slug']\<close>. Coroutines interleave at \<open>await\<close> only,
  so the model takes the object from the registry where a coroutine starts or resumes,
  and puts it back where the coroutine awaits, returns or raises.
\<close>

definition store_sc :: "service_center \<Rightarrow> globals \<Rightarrow> globals" where
  "store_sc sc g = g\<lparr>service_centers := AList.update (sc_slug sc) sc (service_centers g)\<rparr>"

datatype outcome = Returned | Raised pyerror | Awaiting

text \<open>
  \<open>parse_service_center\<close> up to its first \<open>await\<close>, the request of the detail page:
  it returns at once when the service center was not created by this call.
\<close>

definition parse_service_center_begin ::
  "(pystr \<Rightarrow> pystr) \<Rightarrow> sc_card \<Rightarrow> category \<Rightarrow> globals \<Rightarrow> outcome \<times> globals" where
  "parse_service_center_begin slugify sc_card category g =
     (case add_service_center slugify sc_card category g of
        ((sc, added), g) \<Rightarrow>
          if \<not> added then (Returned, g)
          else
            (case fold (\<lambda>metro_tag (sc, g). add_metro sc metro_tag g)
                    (card_metros_tags sc_card) (sc, g) of
               (sc, g) \<Rightarrow>
                 (case for_each (\<lambda>hour_tag sc. add_opening_hour sc hour_tag)
                         (card_hours_tags sc_card) sc of
                    (Some e, sc) \<Rightarrow> (Raised e, store_sc sc g)
                  | (None, sc) \<Rightarrow>
                      (case card_address_tag sc_card of
                         Some address_text \<Rightarrow>
                           (Awaiting,
                            store_sc (sc\<lparr>sc_primary_address :=
                              Some (removeprefix address_text address_prefix)\<rparr>) g)
                       | None \<Rightarrow> (Awaiting, store_sc sc g)))))"

text \<open>The enrichment: \<open>parse_service_center\<close> after the detail page has arrived.\<close>

definition enrich :: "service_center \<Rightarrow> page \<Rightarrow> globals \<Rightarrow> outcome \<times> service_center \<times> globals" where
  "enrich sc html g =
     (case for_each (\<lambda>location_tag sc. add_location sc location_tag (page_coords_addresses html))
             (page_locations html) sc of
        (Some e, sc) \<Rightarrow> (Raised e, sc, g)
      | (None, sc) \<Rightarrow>
          (case fold (\<lambda>feature_tag (sc, g). add_feature sc feature_tag g)
                  (page_features html) (sc, g) of
             (sc, g) \<Rightarrow>
               (case fold (\<lambda>advantage_tag (sc, g). add_advantage sc advantage_tag g)
                       (page_advantages html) (sc, g) of
                  (sc, g) \<Rightarrow>
                    (let sc = (case page_title html of
                                 Some t \<Rightarrow> sc\<lparr>sc_title := Some (removeprefix t service_center_prefix)\<rparr>
                               | None \<Rightarrow> sc);
                         sc = (case page_phone html of
                                 Some h \<Rightarrow> sc\<lparr>sc_phone := Some (removeprefix h (str ''tel:+''))\<rparr>
                               | None \<Rightarrow> sc);
                         sc = (case page_slogan html of
                                 Some t \<Rightarrow> sc\<lparr>sc_slogan := Some t\<rparr>
                               | None \<Rightarrow> sc)
                     in case page_site_link html of
                          Some None \<Rightarrow> (Raised TypeError, sc, g)
                        | site_link \<Rightarrow>
                            (let sc = (case site_link of
                                         Some (Some u) \<Rightarrow>
                                           sc\<lparr>sc_site_url :=
                                             Some (if contains (str ''//'') u then u
                                                   else str ''http://'' @ u)\<rparr>
                                       | _ \<Rightarrow> sc);
                                 sc = (case page_description html of
                                         Some t \<Rightarrow> sc\<lparr>sc_description := Some t\<rparr>
                                       | None \<Rightarrow> sc);
                                 sc = (case page_logo html of
                                         Some path \<Rightarrow> sc\<lparr>sc_logo := Some path\<rparr>
                                       | None \<Rightarrow> sc)
                             in (Returned, sc\<lparr>sc_gallery := page_gallery html\<rparr>, g))))))"

definition parse_service_center_resume :: "pystr \<Rightarrow> page \<Rightarrow> globals \<Rightarrow> outcome \<times> globals" where
  "parse_service_center_resume slug html g =
     (case map_of (service_centers g) slug of
        None \<Rightarrow> (Returned, g)
      | Some sc \<Rightarrow> (case enrich sc html g of (r, sc, g) \<Rightarrow> (r, store_sc sc g)))"

text \<open>
  The calls of \<open>parse_service_center\<close> run as coroutines of one event loop. An event is
  the start of a call, which runs up to the request of the detail page, or the arrival
  of the page for a call that awaits it, which runs the enrichment. The loop state holds
  the registries, the slugs of the calls that await their page and, as a record of what
  happened, the slugs whose enrichment has run, in their order. Events arrive in any
  order; the arrival of a page that no call awaits is no event of the program.
\<close>

datatype event = Start sc_card category | Arrive pystr page

definition event_loop_step ::
  "(pystr \<Rightarrow> pystr) \<Rightarrow> event \<Rightarrow> globals \<times> pystr list \<times> pystr list
     \<Rightarrow> globals \<times> pystr list \<times> pystr list" where
  "event_loop_step slugify ev st =
     (case st of
        (g, awaiting, enriched) \<Rightarrow>
          (case ev of
             Start sc_card category \<Rightarrow>
               (case parse_service_center_begin slugify sc_card category g of
                  (Awaiting, g') \<Rightarrow> (g', awaiting @ [slugify (card_title sc_card)], enriched)
                | (_, g') \<Rightarrow> (g', awaiting, enriched))
           | Arrive slug html \<Rightarrow>
               if slug \<in> set awaiting
                 then (snd (parse_service_center_resume slug html g),
                       remove1 slug awaiting, enriched @ [slug])
               else st))"

definition event_loop ::
  "(pystr \<Rightarrow> pystr) \<Rightarrow> event list \<Rightarrow> globals \<Rightarrow> globals \<times> pystr list \<times> pystr list" where
  "event_loop slugify evs g = fold (event_loop_step slugify) evs (g, [], [])"

text \<open>The flags \<open>created\<close> of successive calls of \<open>add_service_center\<close>.\<close>

fun add_service_centers ::
  "(pystr \<Rightarrow> pystr) \<Rightarrow> (sc_card \<times> category) list \<Rightarrow> globals \<Rightarrow> bool list \<times> globals" where
  "add_service_centers slugify [] g = ([], g)"
| "add_service_centers slugify (call # calls) g =
     (case add_service_center slugify (fst call) (snd call) g of
        ((sc, created), g') \<Rightarrow>
          (case add_service_centers slugify calls g' of
             (flags, g'') \<Rightarrow> (created # flags, g'')))"


text \<open>
  The invariant of the event loop: a call awaits its page, or has been enriched, only
  for a registered slug, and no slug stands twice in the two lists together.
\<close>

definition loop_inv :: "globals \<times> pystr list \<times> pystr list \<Rightarrow> bool" where
  "loop_inv st = (case st of (g, awaiting, enriched) \<Rightarrow>
     set awaiting \<union> set enriched \<subseteq> fst ` set (service_centers g)
     \<and> distinct (awaiting @ enriched))"

section \<open>The store\<close>

text \<open>
  The program writes to SQLite through \<open>aiosqlite\<close>. The store is outside the program;
  it is modelled as far as the statements of the program reach: tables with declared
  columns, \<open>NOT NULL\<close> columns, uniqueness constraints (\<open>UNIQUE\<close> and composite
  \<open>PRIMARY KEY\<close>) and an optional \<open>INTEGER PRIMARY KEY\<close> column, which names the
  row id; inserts with the conflict clause of the statement; reads of two columns; and
  \<open>commit\<close>. Column types other than that are not modelled. In a uniqueness
  constraint \<open>NULL\<close> values are distinct from each other, as in SQLite.
\<close>

datatype sqlval = Null | Integer int | Text pystr

datatype pyval = PyNone | PyInt int | PyStr pystr | PyBool bool

text \<open>Python values bound to a statement, and column values read back.\<close>

fun adapt :: "pyval \<Rightarrow> sqlval" where
  "adapt PyNone = Null"
| "adapt (PyInt i) = Integer i"
| "adapt (PyStr s) = Text s"
| "adapt (PyBool b) = Integer (if b then 1 else 0)"

text \<open>
  What \<open>sqlite3\<close> refuses to bind: an integer outside the signed 64-bit range
  (\<open>OverflowError\<close>), and a string that has no UTF-8 encoding, that is, one with a
  surrogate or with a number that is no code point (\<open>UnicodeEncodeError\<close>).
\<close>

definition bind_error :: "pyval \<Rightarrow> pyerror option" where
  "bind_error v =
     (case v of
        PyInt i \<Rightarrow>
          if - 9223372036854775808 \<le> i \<and> i \<le> 9223372036854775807 then None
          else Some OverflowError
      | PyStr s \<Rightarrow>
          if list_all (\<lambda>c. c < 55296 \<or> (57343 < c \<and> c \<le> 1114111)) s then None
          else Some UnicodeEncodeError
      | _ \<Rightarrow> None)"

text \<open>
  The named parameters of a statement are bound in their order, each looked up in the
  dictionary and then converted: the first that is missing or cannot be bound raises.
\<close>

fun bind_parameters :: "(pystr \<times> pyval) list \<Rightarrow> pystr list \<Rightarrow> pyerror + sqlval list" where
  "bind_parameters params [] = Inr []"
| "bind_parameters params (name # names) =
     (case map_of params name of
        None \<Rightarrow> Inl ProgrammingError
      | Some v \<Rightarrow>
          (case bind_error v of
             Some e \<Rightarrow> Inl e
           | None \<Rightarrow>
               (case bind_parameters params names of
                  Inl e \<Rightarrow> Inl e
                | Inr vs \<Rightarrow> Inr (adapt v # vs))))"

fun convert :: "sqlval \<Rightarrow> pyval" where
  "convert Null = PyNone"
| "convert (Integer i) = PyInt i"
| "convert (Text s) = PyStr s"

record table_def =
  t_columns :: "pystr list"
  t_rowid_alias :: "pystr option"
  t_not_null :: "pystr list"
  t_unique :: "pystr list list"

record row =
  rowid :: int
  cells :: "(pystr \<times> sqlval) list"

record table =
  t_def :: table_def
  t_rows :: "row list"

datatype db_event = Schema | Write pystr | Commit | Read pystr

text \<open>
  A connection: the tables as the connection sees them, the tables as last committed,
  and the record of the operations it has run.
\<close>

record db =
  db_tables :: "(pystr \<times> table) list"
  db_committed :: "(pystr \<times> table) list"
  db_log :: "db_event list"

definition column_value :: "table_def \<Rightarrow> row \<Rightarrow> pystr \<Rightarrow> sqlval" where
  "column_value td r c =
     (if t_rowid_alias td = Some c then Integer (rowid r)
      else case map_of (cells r) c of Some v \<Rightarrow> v | None \<Rightarrow> Null)"

definition next_rowid :: "row list \<Rightarrow> int" where
  "next_rowid rs = (case map rowid rs of [] \<Rightarrow> 1 | i # ids \<Rightarrow> fold max ids i + 1)"

definition violates_not_null :: "table_def \<Rightarrow> row \<Rightarrow> bool" where
  "violates_not_null td r = list_ex (\<lambda>c. column_value td r c = Null) (t_not_null td)"

definition same_key :: "table_def \<Rightarrow> pystr list \<Rightarrow> row \<Rightarrow> row \<Rightarrow> bool" where
  "same_key td u r r' =
     list_all (\<lambda>c. column_value td r c \<noteq> Null \<and> column_value td r' c = column_value td r c) u"

definition violates_unique :: "table_def \<Rightarrow> row list \<Rightarrow> row \<Rightarrow> bool" where
  "violates_unique td rs r = list_ex (\<lambda>u. list_ex (same_key td u r) rs) (t_unique td)"

datatype conflict = Abort | Ignore

record insert_stmt =
  st_conflict :: conflict
  st_table :: pystr
  st_columns :: "pystr list"
  st_params :: "pystr list"

text \<open>
  Reading an insert statement of the shape the program writes, from its words between
  white space: \<open>INSERT [OR IGNORE] INTO table ( c, ... ) VALUES ( :p, ... )\<close>, with at
  least one column and as many named parameters as columns. Anything else is an error of
  the statement.
\<close>

definition strip_comma :: "pystr \<Rightarrow> pystr" where
  "strip_comma w = (if w \<noteq> [] \<and> last w = 44 then butlast w else w)"

fun parse_names :: "pystr list \<Rightarrow> (pystr list \<times> pystr list) option" where
  "parse_names [] = None"
| "parse_names (w # ws) =
     (if w = str '')'' then Some ([], ws)
      else map_option (\<lambda>(names, rest). (strip_comma w # names, rest)) (parse_names ws))"

definition parse_conflict :: "pystr list \<Rightarrow> (conflict \<times> pystr list) option" where
  "parse_conflict ws =
     (case ws of
        w1 # rest \<Rightarrow>
          if w1 \<noteq> str ''INSERT'' then None
          else if take 2 rest = [str ''OR'', str ''IGNORE''] then Some (Ignore, drop 2 rest)
          else Some (Abort, rest)
      | [] \<Rightarrow> None)"

definition parse_insert :: "pystr \<Rightarrow> insert_stmt option" where
  "parse_insert query =
     (case parse_conflict (split_ws query) of
        Some (c, into # tbl # lp # ws) \<Rightarrow>
          if into \<noteq> str ''INTO'' \<or> lp \<noteq> str ''('' then None
          else
            (case parse_names ws of
               Some (cols, values # lp' # ws') \<Rightarrow>
                 if values \<noteq> str ''VALUES'' \<or> lp' \<noteq> str ''('' then None
                 else
                   (case parse_names ws' of
                      Some (ps, []) \<Rightarrow>
                        if cols \<noteq> [] \<and> length ps = length cols
                            \<and> list_all (\<lambda>p. startswith p (str '':'')) ps
                          then Some \<lparr>st_conflict = c, st_table = tbl, st_columns = cols,
                                  st_params = map (\<lambda>p. drop 1 p) ps\<rparr>
                        else None
                    | _ \<Rightarrow> None)
             | _ \<Rightarrow> None)
      | _ \<Rightarrow> None)"

text \<open>
  The row that an insert builds: the bound values in the named columns, \<open>NULL\<close> in the
  others; the row id is the value bound to the \<open>INTEGER PRIMARY KEY\<close> column when an
  integer is bound to it, and the largest row id plus one otherwise.
\<close>

definition new_row :: "table_def \<Rightarrow> row list \<Rightarrow> (pystr \<times> sqlval) list \<Rightarrow> row" where
  "new_row td rs bound =
     \<lparr>rowid =
        (case (case t_rowid_alias td of Some a \<Rightarrow> map_of bound a | None \<Rightarrow> None) of
           Some (Integer i) \<Rightarrow> i
         | _ \<Rightarrow> next_rowid rs),
      cells =
        map (\<lambda>c. (c, case map_of bound c of Some v \<Rightarrow> v | None \<Rightarrow> Null))
          (filter (\<lambda>c. t_rowid_alias td \<noteq> Some c) (t_columns td))\<rparr>"

definition explicit_rowid :: "table_def \<Rightarrow> (pystr \<times> sqlval) list \<Rightarrow> sqlval option" where
  "explicit_rowid td bound =
     (case t_rowid_alias td of Some a \<Rightarrow> map_of bound a | None \<Rightarrow> None)"

text \<open>
  One execution of an insert statement with a dictionary of named parameters. A missing
  table or column is an \<open>OperationalError\<close>, a missing parameter a
  \<open>ProgrammingError\<close>, a value that cannot be bound the error of its binding, a
  text bound to the row id a mismatch. A row that breaks a
  \<open>NOT NULL\<close> or a uniqueness constraint is skipped under \<open>OR IGNORE\<close> and is an
  \<open>IntegrityError\<close> otherwise.
\<close>

definition exec_insert :: "insert_stmt \<Rightarrow> (pystr \<times> pyval) list \<Rightarrow> db \<Rightarrow> pyerror + db" where
  "exec_insert st params d =
     (case map_of (db_tables d) (st_table st) of
        None \<Rightarrow> Inl OperationalError
      | Some t \<Rightarrow>
          if \<not> list_all (\<lambda>c. c \<in> set (t_columns (t_def t))) (st_columns st)
            then Inl OperationalError
          else
            (case bind_parameters params (st_params st) of
               Inl e \<Rightarrow> Inl e
             | Inr vs \<Rightarrow>
                 (let bound = zip (st_columns st) vs;
                      r = new_row (t_def t) (t_rows t) bound
                  in case explicit_rowid (t_def t) bound of
                       Some (Text _) \<Rightarrow> Inl IntegrityError
                     | explicit \<Rightarrow>
                         if violates_not_null (t_def t) r
                            \<or> (explicit \<noteq> None \<and> explicit \<noteq> Some Null
                                 \<and> rowid r \<in> set (map rowid (t_rows t)))
                            \<or> violates_unique (t_def t) (t_rows t) r
                           then (case st_conflict st of
                                   Ignore \<Rightarrow> Inr d
                                 | Abort \<Rightarrow> Inl IntegrityError)
                         else Inr (d\<lparr>db_tables :=
                                AList.update (st_table st) (t\<lparr>t_rows := t_rows t @ [r]\<rparr>)
                                  (db_tables d)\<rparr>))))"

text \<open>\<open>db.executemany(query, rows)\<close>\<close>

definition executemany :: "pystr \<Rightarrow> (pystr \<times> pyval) list list \<Rightarrow> db \<Rightarrow> pyerror option \<times> db" where
  "executemany query rows d =
     (case parse_insert query of
        None \<Rightarrow> (Some OperationalError, d)
      | Some st \<Rightarrow>
          for_each (exec_insert st) rows (d\<lparr>db_log := db_log d @ [Write (st_table st)]\<rparr>))"

definition commit :: "db \<Rightarrow> pyerror option \<times> db" where
  "commit d = (None, d\<lparr>db_committed := db_tables d, db_log := db_log d @ [Commit]\<rparr>)"

text \<open>
  \<open>get_items_ids_by_field(db, table, field)\<close>: the dictionary from the values of the
  field to the ids, a later row replacing an earlier one with the same value.
\<close>

definition get_items_ids_by_field ::
  "db \<Rightarrow> pystr \<Rightarrow> pystr \<Rightarrow> (pyerror + (pyval \<times> pyval) list) \<times> db" where
  "get_items_ids_by_field d tbl field =
     (let d' = d\<lparr>db_log := db_log d @ [Read tbl]\<rparr>
      in case map_of (db_tables d) tbl of
           None \<Rightarrow> (Inl OperationalError, d')
         | Some t \<Rightarrow>
             if field \<in> set (t_columns (t_def t)) \<and> str ''id'' \<in> set (t_columns (t_def t))
               then (Inr (fold (\<lambda>item m.
                              AList.update (convert (column_value (t_def t) item field))
                                (convert (column_value (t_def t) item (str ''id''))) m)
                            (t_rows t) []), d')
             else (Inl OperationalError, d'))"

text \<open>\<open>get_insert_query(table, fields)\<close>, with its line breaks and indentation.\<close>

definition get_insert_query :: "pystr \<Rightarrow> pystr list \<Rightarrow> pystr" where
  "get_insert_query tbl flds =
     str ''INSERT OR IGNORE INTO '' @ tbl @ str '' ('' @ [10] @ str ''        ''
       @ join (str '', '') flds @ [10] @ str ''    ) VALUES ('' @ [10] @ str ''        ''
       @ join (str '', '') (map (\<lambda>field. str '':'' @ field) flds)
       @ [10] @ str ''    )''"


section \<open>Persistence\<close>

text \<open>
  The tables of \<open>create_schema\<close>, in its order. The column \<open>id INTEGER PRIMARY KEY\<close>
  names the row id; a composite \<open>PRIMARY KEY\<close> is a uniqueness constraint.
\<close>

definition schema :: "(pystr \<times> table_def) list" where
  "schema =
     [(str ''service_centers'',
       \<lparr>t_columns = [str ''id'', str ''slug'', str ''title'', str ''phone'', str ''slogan'', str ''logo'', str ''site_url'', str ''description''],
        t_rowid_alias = Some (str ''id''), t_not_null = [str ''slug'', str ''title'', str ''phone''],
        t_unique = [[str ''slug'']]\<rparr>),
      (str ''brands'',
       \<lparr>t_columns = [str ''id'', str ''slug'', str ''title'', str ''is_popular''],
        t_rowid_alias = Some (str ''id''), t_not_null = [str ''slug'', str ''title'', str ''is_popular''],
        t_unique = [[str ''slug'']]\<rparr>),
      (str ''devices'',
       \<lparr>t_columns = [str ''id'', str ''slug'', str ''title''],
        t_rowid_alias = Some (str ''id''), t_not_null = [str ''slug'', str ''title''],
        t_unique = [[str ''slug'']]\<rparr>),
      (str ''metros'',
       \<lparr>t_columns = [str ''id'', str ''title''],
        t_rowid_alias = Some (str ''id''), t_not_null = [str ''title''],
        t_unique = [[str ''title'']]\<rparr>),
      (str ''locations'',
       \<lparr>t_columns = [str ''id'', str ''service_center_id'', str ''metro_id'', str ''address'', str ''coords'', str ''is_primary''],
        t_rowid_alias = Some (str ''id''), t_not_null = [str ''service_center_id'', str ''metro_id'', str ''address'', str ''is_primary''],
        t_unique = [[str ''service_center_id'', str ''metro_id'', str ''address'']]\<rparr>),
      (str ''advantages'',
       \<lparr>t_columns = [str ''id'', str ''title''],
        t_rowid_alias = Some (str ''id''), t_not_null = [str ''title''],
        t_unique = [[str ''title'']]\<rparr>),
      (str ''features'',
       \<lparr>t_columns = [str ''id'', str ''title''],
        t_rowid_alias = Some (str ''id''), t_not_null = [str ''title''],
        t_unique = [[str ''title'']]\<rparr>),
      (str ''opening_hours'',
       \<lparr>t_columns = [str ''id'', str ''service_center_id'', str ''weekday_from'', str ''weekday_to'', str ''time_from'', str ''time_to''],
        t_rowid_alias = Some (str ''id''), t_not_null = [str ''service_center_id'', str ''weekday_from'', str ''weekday_to''],
        t_unique = [[str ''service_center_id'', str ''weekday_from'', str ''weekday_to'']]\<rparr>),
      (str ''gallery_images'',
       \<lparr>t_columns = [str ''id'', str ''service_center_id'', str ''image''],
        t_rowid_alias = Some (str ''id''), t_not_null = [str ''service_center_id''],
        t_unique = [[str ''service_center_id'', str ''image'']]\<rparr>),
      (str ''services'',
       \<lparr>t_columns = [str ''id'', str ''device_id'', str ''title'', str ''price''],
        t_rowid_alias = Some (str ''id''), t_not_null = [str ''device_id'', str ''title'', str ''price''],
        t_unique = [[str ''device_id'', str ''title'']]\<rparr>),
      (str ''advantage_service_center'',
       \<lparr>t_columns = [str ''advantage_id'', str ''service_center_id''],
        t_rowid_alias = None, t_not_null = [],
        t_unique = [[str ''advantage_id'', str ''service_center_id'']]\<rparr>),
      (str ''brand_service_center'',
       \<lparr>t_columns = [str ''brand_id'', str ''service_center_id''],
        t_rowid_alias = None, t_not_null = [],
        t_unique = [[str ''brand_id'', str ''service_center_id'']]\<rparr>),
      (str ''device_service_center'',
       \<lparr>t_columns = [str ''device_id'', str ''service_center_id''],
        t_rowid_alias = None, t_not_null = [],
        t_unique = [[str ''device_id'', str ''service_center_id'']]\<rparr>),
      (str ''metro_service_center'',
       \<lparr>t_columns = [str ''metro_id'', str ''service_center_id''],
        t_rowid_alias = None, t_not_null = [],
        t_unique = [[str ''metro_id'', str ''service_center_id'']]\<rparr>),
      (str ''feature_service_center'',
       \<lparr>t_columns = [str ''feature_id'', str ''service_center_id''],
        t_rowid_alias = None, t_not_null = [],
        t_unique = [[str ''feature_id'', str ''service_center_id'']]\<rparr>),
      (str ''brand_device'',
       \<lparr>t_columns = [str ''brand_id'', str ''device_id''],
        t_rowid_alias = None, t_not_null = [],
        t_unique = [[str ''brand_id'', str ''device_id'']]\<rparr>)]"

text \<open>\<open>CREATE TABLE IF NOT EXISTS\<close>: a table that exists is left as it is.\<close>

definition create_table :: "pystr \<times> table_def \<Rightarrow> (pystr \<times> table) list \<Rightarrow> (pystr \<times> table) list" where
  "create_table nd ts =
     (if map_of ts (fst nd) = None then ts @ [(fst nd, \<lparr>t_def = snd nd, t_rows = []\<rparr>)]
      else ts)"

definition create_schema :: "db \<Rightarrow> pyerror option \<times> db" where
  "create_schema d =
     (None, d\<lparr>db_tables := fold create_table schema (db_tables d),
              db_committed := fold create_table schema (db_committed d),
              db_log := db_log d @ [Schema]\<rparr>)"

text \<open>
  The dictionaries passed as named parameters. Of a category the statement names scalar
  keys only. A service center is wrapped in \<open>defaultdict(lambda: None, sc)\<close>: a key
  that the enrichment has not set reads as \<open>None\<close>.
\<close>

definition opt_str :: "pystr option \<Rightarrow> pyval" where
  "opt_str v = (case v of None \<Rightarrow> PyNone | Some s \<Rightarrow> PyStr s)"

definition category_params :: "category \<Rightarrow> (pystr \<times> pyval) list" where
  "category_params c =
     [(str ''title'', PyStr (cat_title c)), (str ''slug'', PyStr (cat_slug c)),
      (str ''type'', PyStr (case cat_type c of Devices \<Rightarrow> str ''devices''
                                          | Brands \<Rightarrow> str ''brands'')),
      (str ''thumbnail_url'', opt_str (cat_thumbnail_url c)),
      (str ''is_popular'', PyBool (cat_is_popular c))]"

definition titled_params :: "titled \<Rightarrow> (pystr \<times> pyval) list" where
  "titled_params t = [(str ''title'', PyStr (title t))]"

definition service_center_params :: "service_center \<Rightarrow> (pystr \<times> pyval) list" where
  "service_center_params sc =
     [(str ''slug'', PyStr (sc_slug sc)), (str ''title'', opt_str (sc_title sc)),
      (str ''phone'', opt_str (sc_phone sc)), (str ''slogan'', opt_str (sc_slogan sc)),
      (str ''logo'', opt_str (sc_logo sc)), (str ''site_url'', opt_str (sc_site_url sc)),
      (str ''description'', opt_str (sc_description sc))]"

text \<open>\<open>d[k]\<close> and \<open>d.get(k)\<close> on a dictionary of ids.\<close>

definition subscript :: "(pyval \<times> pyval) list \<Rightarrow> pystr \<Rightarrow> pyerror + pyval" where
  "subscript m k = (case map_of m (PyStr k) of None \<Rightarrow> Inl (KeyError k) | Some v \<Rightarrow> Inr v)"

definition dict_get :: "(pyval \<times> pyval) list \<Rightarrow> pystr \<Rightarrow> pyval" where
  "dict_get m k = (case map_of m (PyStr k) of None \<Rightarrow> PyNone | Some v \<Rightarrow> v)"

text \<open>
  A list comprehension whose elements may raise: the first error, in the order of the
  iteration, is the error of the comprehension, and no list is built.
\<close>

fun collect :: "(pyerror + 'a) list \<Rightarrow> pyerror + 'a list" where
  "collect [] = Inr []"
| "collect (x # xs) =
     (case x of
        Inl e \<Rightarrow> Inl e
      | Inr v \<Rightarrow> (case collect xs of Inl e \<Rightarrow> Inl e | Inr vs \<Rightarrow> Inr (v # vs)))"

text \<open>A row that starts with one looked-up id, and a row of two looked-up ids.\<close>

definition with_id ::
  "pystr \<Rightarrow> pyerror + pyval \<Rightarrow> (pystr \<times> pyval) list \<Rightarrow> pyerror + (pystr \<times> pyval) list" where
  "with_id k v rest = (case v of Inl e \<Rightarrow> Inl e | Inr i \<Rightarrow> Inr ((k, i) # rest))"

definition two_ids ::
  "pystr \<Rightarrow> pyerror + pyval \<Rightarrow> pystr \<Rightarrow> pyerror + pyval \<Rightarrow> pyerror + (pystr \<times> pyval) list" where
  "two_ids k v k' v' =
     (case v of
        Inl e \<Rightarrow> Inl e
      | Inr i \<Rightarrow> (case v' of Inl e \<Rightarrow> Inl e | Inr i' \<Rightarrow> Inr [(k, i), (k', i')]))"

text \<open>
  The arguments of \<open>executemany\<close> are evaluated before the call: when the comprehension
  raises, the store is not touched.
\<close>

definition insert_rows ::
  "pystr \<Rightarrow> pystr list \<Rightarrow> (pyerror + (pystr \<times> pyval) list) list \<Rightarrow> db \<Rightarrow> pyerror option \<times> db" where
  "insert_rows tbl flds rows d =
     (case collect rows of
        Inl e \<Rightarrow> (Some e, d)
      | Inr rs \<Rightarrow> executemany (get_insert_query tbl flds) rs d)"

definition insert_brands :: "globals \<Rightarrow> db \<Rightarrow> pyerror option \<times> db" where
  "insert_brands g d =
     executemany (get_insert_query (str ''brands'') [str ''slug'', str ''title'', str ''is_popular''])
       (map (\<lambda>(slug, c). category_params c) (brands g)) d"

definition insert_devices :: "globals \<Rightarrow> db \<Rightarrow> pyerror option \<times> db" where
  "insert_devices g d =
     executemany (get_insert_query (str ''devices'') [str ''slug'', str ''title''])
       (map (\<lambda>(slug, c). category_params c) (devices g)) d"

definition insert_metros :: "globals \<Rightarrow> db \<Rightarrow> pyerror option \<times> db" where
  "insert_metros g d =
     executemany (get_insert_query (str ''metros'') [str ''title''])
       (map (\<lambda>(k, t). titled_params t) (metros g)) d"

definition insert_advantages :: "globals \<Rightarrow> db \<Rightarrow> pyerror option \<times> db" where
  "insert_advantages g d =
     executemany (get_insert_query (str ''advantages'') [str ''title''])
       (map (\<lambda>(k, t). titled_params t) (advantages g)) d"

definition insert_features :: "globals \<Rightarrow> db \<Rightarrow> pyerror option \<times> db" where
  "insert_features g d =
     executemany (get_insert_query (str ''features'') [str ''title''])
       (map (\<lambda>(k, t). titled_params t) (features g)) d"

definition insert_service_centers :: "globals \<Rightarrow> db \<Rightarrow> pyerror option \<times> db" where
  "insert_service_centers g d =
     executemany (get_insert_query (str ''service_centers'') 
         [str ''slug'', str ''title'', str ''phone'', str ''slogan'', str ''logo'', str ''site_url'', str ''description''])
       (map (\<lambda>(slug, sc). service_center_params sc) (service_centers g)) d"

definition insert_locations ::
  "globals \<Rightarrow> (pyval \<times> pyval) list \<Rightarrow> (pyval \<times> pyval) list \<Rightarrow> db \<Rightarrow> pyerror option \<times> db" where
  "insert_locations g sc_ids_by_slugs metro_ids_by_titles d =
     insert_rows (str ''locations'') 
       [str ''service_center_id'', str ''metro_id'', str ''address'', str ''coords'', str ''is_primary'']
       (concat (map (\<lambda>(sc_slug, sc).
          map (\<lambda>loc.
                 with_id (str ''service_center_id'') (subscript sc_ids_by_slugs sc_slug)
                   [(str ''metro_id'', dict_get metro_ids_by_titles (metro loc)),
                    (str ''address'', PyStr (address loc)),
                    (str ''coords'', opt_str (coords loc)),
                    (str ''is_primary'', PyBool (is_primary loc))])
            (sc_locations sc))
        (service_centers g))) d"

definition insert_opening_hours ::
  "globals \<Rightarrow> (pyval \<times> pyval) list \<Rightarrow> db \<Rightarrow> pyerror option \<times> db" where
  "insert_opening_hours g sc_ids_by_slugs d =
     insert_rows (str ''opening_hours'') 
       [str ''service_center_id'', str ''weekday_from'', str ''weekday_to'', str ''time_from'', str ''time_to'']
       (concat (map (\<lambda>(sc_slug, sc).
          map (\<lambda>oh.
                 with_id (str ''service_center_id'') (subscript sc_ids_by_slugs sc_slug)
                   [(str ''weekday_from'', PyInt (weekday_from oh)),
                    (str ''weekday_to'', PyInt (weekday_to oh)),
                    (str ''time_from'', opt_str (time_from oh)),
                    (str ''time_to'', opt_str (time_to oh))])
            (sc_opening_hours sc))
        (service_centers g))) d"

definition insert_services ::
  "globals \<Rightarrow> (pyval \<times> pyval) list \<Rightarrow> db \<Rightarrow> pyerror option \<times> db" where
  "insert_services g device_ids_by_slugs d =
     insert_rows (str ''services'') [str ''device_id'', str ''title'', str ''price'']
       (concat (map (\<lambda>(device_slug, device).
          case cat_services device of
            None \<Rightarrow> [Inl (KeyError (str ''services''))]
          | Some svs \<Rightarrow>
              map (\<lambda>sv.
                     with_id (str ''device_id'') (subscript device_ids_by_slugs device_slug)
                       [(str ''title'', PyStr (service_title sv)),
                        (str ''price'', PyStr (service_price sv))])
                svs)
        (devices g))) d"

definition insert_service_centers_advantages ::
  "globals \<Rightarrow> (pyval \<times> pyval) list \<Rightarrow> (pyval \<times> pyval) list \<Rightarrow> db \<Rightarrow> pyerror option \<times> db" where
  "insert_service_centers_advantages g sc_ids_by_slugs advantage_ids_by_title d =
     insert_rows (str ''advantage_service_center'')
       [str ''service_center_id'', str ''advantage_id'']
       (concat (map (\<lambda>(sc_slug, sc).
          map (\<lambda>advantage_title.
                 two_ids (str ''service_center_id'') (subscript sc_ids_by_slugs sc_slug)
                   (str ''advantage_id'') (subscript advantage_ids_by_title advantage_title))
            (sc_advantages sc))
        (service_centers g))) d"

definition insert_service_centers_features ::
  "globals \<Rightarrow> (pyval \<times> pyval) list \<Rightarrow> (pyval \<times> pyval) list \<Rightarrow> db \<Rightarrow> pyerror option \<times> db" where
  "insert_service_centers_features g sc_ids_by_slugs feature_ids_by_title d =
     insert_rows (str ''feature_service_center'')
       [str ''service_center_id'', str ''feature_id'']
       (concat (map (\<lambda>(sc_slug, sc).
          map (\<lambda>feature_title.
                 two_ids (str ''service_center_id'') (subscript sc_ids_by_slugs sc_slug)
                   (str ''feature_id'') (subscript feature_ids_by_title feature_title))
            (sc_features sc))
        (service_centers g))) d"

definition insert_service_centers_brands ::
  "globals \<Rightarrow> (pyval \<times> pyval) list \<Rightarrow> (pyval \<times> pyval) list \<Rightarrow> db \<Rightarrow> pyerror option \<times> db" where
  "insert_service_centers_brands g sc_ids_by_slugs brand_ids_by_slugs d =
     insert_rows (str ''brand_service_center'')
       [str ''service_center_id'', str ''brand_id'']
       (concat (map (\<lambda>(sc_slug, sc).
          map (\<lambda>brand_slug.
                 two_ids (str ''service_center_id'') (subscript sc_ids_by_slugs sc_slug)
                   (str ''brand_id'') (subscript brand_ids_by_slugs brand_slug))
            (sc_brands sc))
        (service_centers g))) d"

definition insert_service_centers_devices ::
  "globals \<Rightarrow> (pyval \<times> pyval) list \<Rightarrow> (pyval \<times> pyval) list \<Rightarrow> db \<Rightarrow> pyerror option \<times> db" where
  "insert_service_centers_devices g sc_ids_by_slugs device_ids_by_slugs d =
     insert_rows (str ''device_service_center'')
       [str ''service_center_id'', str ''device_id'']
       (concat (map (\<lambda>(sc_slug, sc).
          map (\<lambda>device_slug.
                 two_ids (str ''service_center_id'') (subscript sc_ids_by_slugs sc_slug)
                   (str ''device_id'') (subscript device_ids_by_slugs device_slug))
            (sc_devices sc))
        (service_centers g))) d"

definition insert_service_centers_metros ::
  "globals \<Rightarrow> (pyval \<times> pyval) list \<Rightarrow> (pyval \<times> pyval) list \<Rightarrow> db \<Rightarrow> pyerror option \<times> db" where
  "insert_service_centers_metros g sc_ids_by_slugs metro_ids_by_titles d =
     insert_rows (str ''metro_service_center'')
       [str ''service_center_id'', str ''metro_id'']
       (concat (map (\<lambda>(sc_slug, sc).
          map (\<lambda>metro_title.
                 two_ids (str ''service_center_id'') (subscript sc_ids_by_slugs sc_slug)
                   (str ''metro_id'') (subscript metro_ids_by_titles metro_title))
            (sc_metros sc))
        (service_centers g))) d"

definition insert_gallery_images ::
  "globals \<Rightarrow> (pyval \<times> pyval) list \<Rightarrow> db \<Rightarrow> pyerror option \<times> db" where
  "insert_gallery_images g sc_ids_by_slugs d =
     insert_rows (str ''gallery_images'') [str ''service_center_id'', str ''image'']
       (concat (map (\<lambda>(sc_slug, sc).
          map (\<lambda>img.
                 with_id (str ''service_center_id'') (subscript sc_ids_by_slugs sc_slug)
                   [(str ''image'', PyStr img)])
            (sc_gallery sc))
        (service_centers g))) d"

definition insert_devices_brands ::
  "globals \<Rightarrow> (pyval \<times> pyval) list \<Rightarrow> (pyval \<times> pyval) list \<Rightarrow> db \<Rightarrow> pyerror option \<times> db" where
  "insert_devices_brands g brand_ids_by_slugs device_ids_by_slugs d =
     insert_rows (str ''brand_device'') [str ''brand_id'', str ''device_id'']
       (concat (map (\<lambda>(device_slug, device).
          case cat_brands device of
            None \<Rightarrow> [Inl (KeyError (str ''brands''))]
          | Some bs \<Rightarrow>
              map (\<lambda>brand_slug.
                     two_ids (str ''brand_id'') (subscript brand_ids_by_slugs brand_slug)
                       (str ''device_id'') (subscript device_ids_by_slugs device_slug))
                bs)
        (devices g))) d"

text \<open>
  \<open>insert_data\<close> runs its steps in order and stops at the first that raises. Its local
  variables, the connection and the six dictionaries of ids, make up the state of the run.
\<close>

record frame =
  fr_db :: db
  sc_ids_by_slugs :: "(pyval \<times> pyval) list"
  metro_ids_by_titles :: "(pyval \<times> pyval) list"
  brand_ids_by_slugs :: "(pyval \<times> pyval) list"
  device_ids_by_slugs :: "(pyval \<times> pyval) list"
  advantage_ids_by_titles :: "(pyval \<times> pyval) list"
  feature_ids_by_titles :: "(pyval \<times> pyval) list"

fun run_steps :: "('s \<Rightarrow> pyerror option \<times> 's) list \<Rightarrow> 's \<Rightarrow> pyerror option \<times> 's" where
  "run_steps [] s = (None, s)"
| "run_steps (f # fs) s =
     (case f s of (Some e, s') \<Rightarrow> (Some e, s') | (None, s') \<Rightarrow> run_steps fs s')"

definition on_db :: "(frame \<Rightarrow> db \<Rightarrow> pyerror option \<times> db) \<Rightarrow> frame \<Rightarrow> pyerror option \<times> frame" where
  "on_db f fr = (case f fr (fr_db fr) of (r, d) \<Rightarrow> (r, fr\<lparr>fr_db := d\<rparr>))"

definition read_ids ::
  "pystr \<Rightarrow> pystr \<Rightarrow> ((pyval \<times> pyval) list \<Rightarrow> frame \<Rightarrow> frame) \<Rightarrow> frame
     \<Rightarrow> pyerror option \<times> frame" where
  "read_ids tbl field assign fr =
     (case get_items_ids_by_field (fr_db fr) tbl field of
        (Inl e, d) \<Rightarrow> (Some e, fr\<lparr>fr_db := d\<rparr>)
      | (Inr m, d) \<Rightarrow> (None, assign m (fr\<lparr>fr_db := d\<rparr>)))"

definition insert_data_steps :: "globals \<Rightarrow> (frame \<Rightarrow> pyerror option \<times> frame) list" where
  "insert_data_steps g =
     [on_db (\<lambda>fr. create_schema),
      on_db (\<lambda>fr. insert_brands g),
      on_db (\<lambda>fr. insert_devices g),
      on_db (\<lambda>fr. insert_metros g),
      on_db (\<lambda>fr. insert_advantages g),
      on_db (\<lambda>fr. insert_features g),
      on_db (\<lambda>fr. commit),
      on_db (\<lambda>fr. insert_service_centers g),
      on_db (\<lambda>fr. commit),
      read_ids (str ''service_centers'') (str ''slug'') (\<lambda>m fr. fr\<lparr>sc_ids_by_slugs := m\<rparr>),
      read_ids (str ''metros'') (str ''title'') (\<lambda>m fr. fr\<lparr>metro_ids_by_titles := m\<rparr>),
      read_ids (str ''brands'') (str ''slug'') (\<lambda>m fr. fr\<lparr>brand_ids_by_slugs := m\<rparr>),
      read_ids (str ''devices'') (str ''slug'') (\<lambda>m fr. fr\<lparr>device_ids_by_slugs := m\<rparr>),
      read_ids (str ''advantages'') (str ''title'')
        (\<lambda>m fr. fr\<lparr>advantage_ids_by_titles := m\<rparr>),
      read_ids (str ''features'') (str ''title'') (\<lambda>m fr. fr\<lparr>feature_ids_by_titles := m\<rparr>),
      on_db (\<lambda>fr. insert_opening_hours g (sc_ids_by_slugs fr)),
      on_db (\<lambda>fr. insert_gallery_images g (sc_ids_by_slugs fr)),
      on_db (\<lambda>fr. insert_services g (device_ids_by_slugs fr)),
      on_db (\<lambda>fr. insert_locations g (sc_ids_by_slugs fr) (metro_ids_by_titles fr)),
      on_db (\<lambda>fr. insert_service_centers_brands g (sc_ids_by_slugs fr)
                      (brand_ids_by_slugs fr)),
      on_db (\<lambda>fr. insert_service_centers_devices g (sc_ids_by_slugs fr)
                      (device_ids_by_slugs fr)),
      on_db (\<lambda>fr. insert_service_centers_metros g (sc_ids_by_slugs fr)
                      (metro_ids_by_titles fr)),
      on_db (\<lambda>fr. insert_devices_brands g (brand_ids_by_slugs fr) (device_ids_by_slugs fr)),
      on_db (\<lambda>fr. insert_service_centers_advantages g (sc_ids_by_slugs fr)
                      (advantage_ids_by_titles fr)),
      on_db (\<lambda>fr. insert_service_centers_features g (sc_ids_by_slugs fr)
                      (feature_ids_by_titles fr)),
      on_db (\<lambda>fr. commit)]"

definition insert_data :: "globals \<Rightarrow> db \<Rightarrow> pyerror option \<times> db" where
  "insert_data g d =
     (case run_steps (insert_data_steps g)
             \<lparr>fr_db = d, sc_ids_by_slugs = [], metro_ids_by_titles = [],
              brand_ids_by_slugs = [], device_ids_by_slugs = [],
              advantage_ids_by_titles = [], feature_ids_by_titles = []\<rparr> of
        (r, fr) \<Rightarrow> (r, fr_db fr))"

definition empty_db :: db where
  "empty_db = \<lparr>db_tables = [], db_committed = [], db_log = []\<rparr>"


section \<open>Notions of the claims about persistence\<close>

text \<open>A name of a table or column: letters, digits and underscores, at least one.\<close>

definition sql_name :: "pystr \<Rightarrow> bool" where
  "sql_name w \<longleftrightarrow>
     w \<noteq> [] \<and> list_all (\<lambda>c. c = 95 \<or> (48 \<le> c \<and> c \<le> 57) \<or> (65 \<le> c \<and> c \<le> 90)
                              \<or> (97 \<le> c \<and> c \<le> 122)) w"

text \<open>
  A dictionary of parameters that supplies every field with a value that can be bound;
  the value that a dictionary of parameters gives to a column under a field list; a row
  that is already present by a uniqueness constraint of the table (an existing row has the
  same values, none of them \<open>NULL\<close>, in the columns of the constraint); a row that has
  a value in every column of some uniqueness constraint; a row without a value in a
  \<open>NOT NULL\<close> column.
\<close>

definition supplied :: "pystr list \<Rightarrow> (pystr \<times> pyval) list \<Rightarrow> bool" where
  "supplied flds params =
     list_all (\<lambda>f. case map_of params f of None \<Rightarrow> False | Some v \<Rightarrow> bind_error v = None)
       flds"

definition param_value :: "pystr list \<Rightarrow> (pystr \<times> pyval) list \<Rightarrow> pystr \<Rightarrow> sqlval" where
  "param_value flds params c =
     (if c \<in> set flds then (case map_of params c of Some v \<Rightarrow> adapt v | None \<Rightarrow> Null)
      else Null)"

definition already_present ::
  "table_def \<Rightarrow> row list \<Rightarrow> pystr list \<Rightarrow> (pystr \<times> pyval) list \<Rightarrow> bool" where
  "already_present td rs flds params =
     list_ex (\<lambda>u. list_ex (\<lambda>r. list_all (\<lambda>c. param_value flds params c \<noteq> Null
                  \<and> column_value td r c = param_value flds params c) u) rs)
       (t_unique td)"


definition lacks_required :: "table_def \<Rightarrow> pystr list \<Rightarrow> (pystr \<times> pyval) list \<Rightarrow> bool" where
  "lacks_required td flds params =
     list_ex (\<lambda>c. t_rowid_alias td \<noteq> Some c \<and> param_value flds params c = Null)
       (t_not_null td)"

text \<open>
  The rows of a table after one row has been inserted under \<open>OR IGNORE\<close> with the
  field list as columns and parameters, and the store with the rows of a table replaced.
\<close>

definition insert_step ::
  "table_def \<Rightarrow> pystr list \<Rightarrow> (pystr \<times> pyval) list \<Rightarrow> row list \<Rightarrow> row list" where
  "insert_step td flds params rs =
     (let r = new_row td rs (zip flds (map (param_value flds params) flds))
      in if violates_not_null td r \<or> violates_unique td rs r then rs else rs @ [r])"

definition with_rows :: "pystr \<Rightarrow> table \<Rightarrow> row list \<Rightarrow> db \<Rightarrow> db" where
  "with_rows tbl t rs d =
     d\<lparr>db_tables := AList.update tbl (t\<lparr>t_rows := rs\<rparr>) (db_tables d)\<rparr>"


text \<open>
  Words for the reading of a statement: a word has no white space in it; a plain word is
  not empty, does not end in a comma and is not a closing parenthesis.
\<close>

definition nospace :: "pystr \<Rightarrow> bool" where
  "nospace w = list_all (\<lambda>c. \<not> isspace c) w"

definition plain_word :: "pystr \<Rightarrow> bool" where
  "plain_word w \<longleftrightarrow> w \<noteq> [] \<and> last w \<noteq> 44 \<and> w \<noteq> [41]"


text \<open>
  The operations of \<open>insert_data\<close> in the order of its source lines, the tables that
  stand alone, and the relationship tables with the tables whose ids they hold.
\<close>

definition insert_data_trace :: "db_event list" where
  "insert_data_trace =
     [Schema, Write (str ''brands''), Write (str ''devices''), Write (str ''metros''),
      Write (str ''advantages''), Write (str ''features''), Commit,
      Write (str ''service_centers''), Commit,
      Read (str ''service_centers''), Read (str ''metros''), Read (str ''brands''),
      Read (str ''devices''), Read (str ''advantages''), Read (str ''features''),
      Write (str ''opening_hours''), Write (str ''gallery_images''),
      Write (str ''services''), Write (str ''locations''),
      Write (str ''brand_service_center''), Write (str ''device_service_center''),
      Write (str ''metro_service_center''), Write (str ''brand_device''),
      Write (str ''advantage_service_center''), Write (str ''feature_service_center''),
      Commit]"

definition entity_tables :: "pystr list" where
  "entity_tables =
     [str ''brands'', str ''devices'', str ''metros'', str ''advantages'', str ''features'']"

definition relationship_tables :: "(pystr \<times> pystr list) list" where
  "relationship_tables =
     [(str ''opening_hours'', [str ''service_centers'']),
      (str ''gallery_images'', [str ''service_centers'']),
      (str ''services'', [str ''devices'']),
      (str ''locations'', [str ''service_centers'', str ''metros'']),
      (str ''brand_service_center'', [str ''service_centers'', str ''brands'']),
      (str ''device_service_center'', [str ''service_centers'', str ''devices'']),
      (str ''metro_service_center'', [str ''service_centers'', str ''metros'']),
      (str ''brand_device'', [str ''brands'', str ''devices'']),
      (str ''advantage_service_center'', [str ''service_centers'', str ''advantages'']),
      (str ''feature_service_center'', [str ''service_centers'', str ''features''])]"

text \<open>\<open>in_order xs ys\<close>: the elements of \<open>xs\<close> occur in \<open>ys\<close>, in this order.\<close>

fun in_order :: "'a list \<Rightarrow> 'a list \<Rightarrow> bool" where
  "in_order [] ys = True"
| "in_order (x # xs) [] = False"
| "in_order (x # xs) (y # ys) = (if x = y then in_order xs ys else in_order (x # xs) ys)"

text \<open>
  What has to come before a write: nothing for a table that is not a relationship table;
  for a relationship table, the write of each entity table and a commit after it, the
  write of the service centers and a commit after it, and for each table it refers to
  the write, a commit after it and the read of the ids after that.
\<close>

definition write_allowed :: "db_event list \<Rightarrow> db_event \<Rightarrow> bool" where
  "write_allowed before ev =
     (case ev of
        Write t \<Rightarrow>
          (case map_of relationship_tables t of
             None \<Rightarrow> True
           | Some refs \<Rightarrow>
               list_all (\<lambda>e. in_order [Write e, Commit] before) entity_tables
               \<and> in_order [Write (str ''service_centers''), Commit] before
               \<and> list_all (\<lambda>r. in_order [Write r, Commit, Read r] before) refs)
      | _ \<Rightarrow> True)"

definition dependency_ordered :: "db_event list \<Rightarrow> bool" where
  "dependency_ordered lg =
     list_all (\<lambda>i. write_allowed (take i lg) (lg ! i)) [0..<length lg]"

text \<open>A step of a run records the event, or raises before it records anything.\<close>

definition emits :: "db_event \<Rightarrow> (frame \<Rightarrow> pyerror option \<times> frame) \<Rightarrow> bool" where
  "emits ev f =
     (\<forall>fr. db_log (fr_db (snd (f fr))) = db_log (fr_db fr) @ [ev]
           \<or> (fst (f fr) \<noteq> None \<and> db_log (fr_db (snd (f fr))) = db_log (fr_db fr)))"


section \<open>Example inputs\<close>

text \<open>
  Inputs for the concrete instances below. Their titles are lower-case ASCII words, on
  which \<open>slugify\<close> is the identity, so the instances pass \<open>\<lambda>t. t\<close> for it.
\<close>

definition example_tag :: "pystr \<Rightarrow> anchor_tag" where
  "example_tag t = \<lparr>tag_href = str ''/'' @ t, tag_img = None, tag_text = t\<rparr>"

definition example_logo_tag :: "pystr \<Rightarrow> pystr \<Rightarrow> anchor_tag" where
  "example_logo_tag t url =
     \<lparr>tag_href = str ''/'' @ t,
      tag_img = Some \<lparr>img_alt = Some (logo_prefix @ t), img_src = Some url,
        img_data_src = None\<rparr>,
      tag_text = []\<rparr>"

definition example_category :: "category_type \<Rightarrow> pystr \<Rightarrow> category" where
  "example_category ty t =
     \<lparr>cat_title = t, cat_slug = t, cat_type = ty, cat_thumbnail_url = None,
      cat_is_popular = False,
      cat_brands = (if ty = Devices then Some [] else None),
      cat_services = (if ty = Devices then Some [] else None)\<rparr>"

definition example_card :: "pystr \<Rightarrow> sc_card" where
  "example_card t =
     \<lparr>card_title = t, card_link = str ''/sc_'' @ t, card_metros_tags = [],
      card_hours_tags = [], card_address_tag = None\<rparr>"

definition example_page :: page where
  "example_page =
     \<lparr>page_locations = [str ''A-Nevsky 1''],
      page_coords_addresses = [(str ''1,2'', str ''Nevsky 1'')],
      page_features = [str ''wifi''], page_advantages = [],
      page_title = Some (str ''Fixit''), page_phone = Some (str ''tel:+78120000000''),
      page_slogan = None, page_site_link = None, page_description = None,
      page_logo = None, page_gallery = []\<rparr>"

text \<open>
  Registries after a crawl: the device category \<open>phones\<close> and the metro \<open>zenit\<close>,
  and one service center, given below with or without the phone of its detail page.
\<close>

definition example_service_center :: "pystr option \<Rightarrow> service_center" where
  "example_service_center phone =
     (new_service_center (str ''fixit''))
       \<lparr>sc_devices := [str ''phones''], sc_metros := [str ''zenit''],
        sc_locations := [\<lparr>coords = None, metro = str ''unknown'', address = str ''Nevsky 1'',
          is_primary = False\<rparr>],
        sc_title := Some (str ''Fixit''), sc_phone := phone\<rparr>"

definition example_globals :: "pystr option \<Rightarrow> globals" where
  "example_globals phone =
     empty_globals
       \<lparr>devices := [(str ''phones'', example_category Devices (str ''phones''))],
        metros := [(str ''zenit'', \<lparr>title = str ''zenit''\<rparr>)],
        service_centers := [(str ''fixit'', example_service_center phone)]\<rparr>"


text \<open>Stores with one empty table of the schema: the service centers, the locations.\<close>

definition example_sc_db :: db where
  "example_sc_db =
     \<lparr>db_tables =
        [(str ''service_centers'',
          \<lparr>t_def = \<lparr>t_columns = [str ''id'', str ''slug'', str ''title'', str ''phone'',
                      str ''slogan'', str ''logo'', str ''site_url'', str ''description''],
                    t_rowid_alias = Some (str ''id''),
                    t_not_null = [str ''slug'', str ''title'', str ''phone''],
                    t_unique = [[str ''slug'']]\<rparr>,
           t_rows = []\<rparr>)],
      db_committed = [], db_log = []\<rparr>"

definition example_locations_db :: db where
  "example_locations_db =
     \<lparr>db_tables =
        [(str ''locations'',
          \<lparr>t_def = \<lparr>t_columns = [str ''id'', str ''service_center_id'', str ''metro_id'',
                      str ''address'', str ''coords'', str ''is_primary''],
                    t_rowid_alias = Some (str ''id''),
                    t_not_null = [str ''service_center_id'', str ''metro_id'',
                      str ''address'', str ''is_primary''],
                    t_unique = [[str ''service_center_id'', str ''metro_id'',
                      str ''address'']]\<rparr>,
           t_rows = []\<rparr>)],
      db_committed = [], db_log = []\<rparr>"





section \<open>Opening hours: the tokens of the specification\<close>

lemmas opening_hour_defs =
  add_opening_hour_def str_def rsplit1_def split_char_def split_ws_def
  all_hours_token_def closed_token_def weekdays_names_def isspace_def

text \<open>
  C5. The three opening-hours tokens of the specification, written as code points:
  \<open>PN-VS - Kruglosutochno\<close> yields weekdays 1 to 7 and the times \<open>00:00\<close>, \<open>00:00\<close>;
  \<open>VS - Vykhodnoy\<close> yields weekdays 7 to 7 and no times; \<open>PN-PT - 09:00 18:00\<close> yields
  weekdays 1 to 5 and the times \<open>09:00\<close>, \<open>18:00\<close>. Each call appends exactly that record
  to the opening hours of the service center. The seven weekday symbols of the table map
  to 1 (Monday) through 7 (Sunday), in the order of the table.
\<close>

theorem add_opening_hour_spec_tokens:
  "add_opening_hour sc
       ([1055, 1053] @ str ''-'' @ [1042, 1057] @ str '' - '' @ all_hours_token) =
     Inr (sc\<lparr>sc_opening_hours := sc_opening_hours sc @
       [\<lparr>weekday_from = 1, weekday_to = 7,
         time_from = Some (str ''00:00''), time_to = Some (str ''00:00'')\<rparr>]\<rparr>)
   \<and> add_opening_hour sc ([1042, 1057] @ str '' - '' @ closed_token) =
     Inr (sc\<lparr>sc_opening_hours := sc_opening_hours sc @
       [\<lparr>weekday_from = 7, weekday_to = 7, time_from = None, time_to = None\<rparr>]\<rparr>)
   \<and> add_opening_hour sc
       ([1055, 1053] @ str ''-'' @ [1055, 1058] @ str '' - 09:00 18:00'') =
     Inr (sc\<lparr>sc_opening_hours := sc_opening_hours sc @
       [\<lparr>weekday_from = 1, weekday_to = 5,
         time_from = Some (str ''09:00''), time_to = Some (str ''18:00'')\<rparr>]\<rparr>)
   \<and> map (\<lambda>day. add_opening_hour sc (day @ str '' - '' @ closed_token)) weekdays_names =
     map (\<lambda>n. Inr (sc\<lparr>sc_opening_hours := sc_opening_hours sc @
       [\<lparr>weekday_from = n, weekday_to = n, time_from = None, time_to = None\<rparr>]\<rparr>))
       [1, 2, 3, 4, 5, 6, 7]"
  by (simp add: opening_hour_defs)


section \<open>Coordinates of a location\<close>

lemma fold_bind_coords_address: "address (fold bind_coords recs loc) = address loc"
  by (induction recs arbitrary: loc) (simp_all add: bind_coords_def)

lemma fold_bind_coords_coords:
  "coords (fold bind_coords recs loc) =
     (case filter (\<lambda>ca. contains (address loc) (snd ca)) recs of
        [] \<Rightarrow> coords loc
      | ms \<Rightarrow> Some (fst (last ms)))"
proof (induction recs arbitrary: loc)
  case Nil
  then show ?case by simp
next
  case (Cons ca recs)
  have a: "address (bind_coords ca loc) = address loc"
    by (simp add: bind_coords_def)
  show ?case
    by (simp add: Cons.IH a) (simp add: bind_coords_def split: list.splits)
qed

text \<open>
  C6, as amended. When the text of the location tag splits at its first hyphen into the
  metro part and the address, \<open>add_location\<close> appends one location with that address,
  and its \<open>coords\<close> are those of the last record, in the order of the page, whose
  address text contains the address of the location as a substring; when no record
  contains it, \<open>coords\<close> stay \<open>None\<close>.
\<close>

theorem add_location_binds_last_match:
  assumes "split1 (str ''-'') location_text = [metro_part, address_part]"
  shows "\<exists>loc. add_location sc location_text coords_addresses =
             Inr (sc\<lparr>sc_locations := sc_locations sc @ [loc]\<rparr>)
           \<and> address loc = address_part
           \<and> coords loc =
               (case filter (\<lambda>ca. contains address_part (snd ca)) coords_addresses of
                  [] \<Rightarrow> None
                | ms \<Rightarrow> Some (fst (last ms)))"
proof -
  define loc0 where "loc0 = \<lparr>coords = None, metro = removeprefix metro_part metro_prefix,
    address = address_part, is_primary = False\<rparr>"
  define loc where "loc = fold bind_coords coords_addresses
    (if truthy (sc_primary_address sc)
       then loc0\<lparr>is_primary := contains (the (sc_primary_address sc)) address_part\<rparr>
     else loc0)"
  have c0: "coords loc0 = None" "address loc0 = address_part"
    by (simp_all add: loc0_def)
  have "add_location sc location_text coords_addresses =
      Inr (sc\<lparr>sc_locations := sc_locations sc @ [loc]\<rparr>)"
    using assms by (simp add: add_location_def Let_def loc_def loc0_def)
  moreover have "address loc = address_part"
    by (simp add: loc_def fold_bind_coords_address c0)
  moreover have "coords loc =
      (case filter (\<lambda>ca. contains address_part (snd ca)) coords_addresses of
         [] \<Rightarrow> None
       | ms \<Rightarrow> Some (fst (last ms)))"
    by (simp add: loc_def fold_bind_coords_coords c0 split: list.splits)
  ultimately show ?thesis by blast
qed

text \<open>The theorem at a page with two matching records and one that does not match.\<close>

theorem add_location_binds_last_match_witness:
  "\<exists>loc. add_location (new_service_center (str ''sc'')) (str ''A-Nevsky 1'')
        [(str ''1,2'', str ''Nevsky 1''), (str ''3,4'', str ''Nevsky 10''), (str ''5,6'', str ''Sadovaya 2'')] =
       Inr ((new_service_center (str ''sc''))\<lparr>sc_locations := [loc]\<rparr>)
     \<and> address loc = str ''Nevsky 1'' \<and> coords loc = Some (str ''3,4'')"
proof -
  have s: "split1 (str ''-'') (str ''A-Nevsky 1'') = [str ''A'', str ''Nevsky 1'']"
    by (simp add: split1_def str_def)
  show ?thesis
    using add_location_binds_last_match [OF s, of "new_service_center (str ''sc'')"
      "[(str ''1,2'', str ''Nevsky 1''), (str ''3,4'', str ''Nevsky 10''), (str ''5,6'', str ''Sadovaya 2'')]"]
    by (simp add: str_def new_service_center_def)
qed

text \<open>
  C6 as stated fails: with the address \<open>Nevsky 1\<close> and the records \<open>(1,2; Nevsky 1)\<close>
  and \<open>(3,4; Nevsky 10)\<close>, both address texts contain the address; the first of them
  carries \<open>1,2\<close>, and the location is bound to \<open>3,4\<close>.
\<close>

theorem add_location_first_match_counterexample:
  "add_location (new_service_center (str ''sc'')) (str ''A-Nevsky 1'')
        [(str ''1,2'', str ''Nevsky 1''), (str ''3,4'', str ''Nevsky 10'')] =
     Inr ((new_service_center (str ''sc''))\<lparr>sc_locations :=
       [\<lparr>coords = Some (str ''3,4''), metro = str ''A'', address = str ''Nevsky 1'',
         is_primary = False\<rparr>]\<rparr>)
   \<and> find (\<lambda>ca. contains (str ''Nevsky 1'') (snd ca))
        [(str ''1,2'', str ''Nevsky 1''), (str ''3,4'', str ''Nevsky 10'')] =
     Some (str ''1,2'', str ''Nevsky 1'')"
  by (simp add: add_location_def split1_def str_def new_service_center_def bind_coords_def
      removeprefix_def metro_prefix_def truthy_def)


section \<open>Popular brands\<close>

lemma map_of_map_keyed:
  "map_of (map (\<lambda>(k, v). if k = t then (k, f v) else (k, v)) xs) k =
     (if k = t then map_option f (map_of xs k) else map_of xs k)"
  by (induction xs) auto

lemma map_fst_map_keyed:
  "map fst (map (\<lambda>(k, v). if k = t then (k, f v) else (k, v)) xs) = map fst xs"
  by (induction xs) auto

lemma map_keyed_absent:
  "t \<notin> fst ` set xs \<Longrightarrow> map (\<lambda>(k, v). if k = t then (k, f v) else (k, v)) xs = xs"
  by (induction xs) auto

text \<open>
  C9. For a brand anchor whose title is read without error, \<open>add_popular_brand\<close>
  returns a registry with the same brand keys in the same order; the brand stored under
  the slug of the anchor, when there is one, has \<open>is_popular\<close> set and every other
  field as before, and every other brand is as before; when no brand has that slug the
  registries are unchanged; and nothing but the brands registry changes in any case.
\<close>

theorem add_popular_brand_frame:
  assumes "get_category_title brand_tag = Inr t"
  shows "\<exists>g'. add_popular_brand slugify brand_tag g = Inr g'
    \<and> map fst (brands g') = map fst (brands g)
    \<and> (\<forall>k. map_of (brands g') k =
           (if k = slugify t
              then map_option (\<lambda>brand. brand\<lparr>cat_is_popular := True\<rparr>) (map_of (brands g) k)
            else map_of (brands g) k))
    \<and> (slugify t \<notin> fst ` set (brands g) \<longrightarrow> g' = g)
    \<and> g' = g\<lparr>brands := brands g'\<rparr>"
proof -
  define g' where "g' = g\<lparr>brands :=
      map (\<lambda>(k, v). if k = slugify t then (k, v\<lparr>cat_is_popular := True\<rparr>) else (k, v))
        (brands g)\<rparr>"
  have "add_popular_brand slugify brand_tag g = Inr g'"
    using assms by (simp add: add_popular_brand_def Let_def g'_def)
  moreover have "map fst (brands g') = map fst (brands g)"
    unfolding g'_def by (simp add: map_fst_map_keyed del: map_map)
  moreover have "\<forall>k. map_of (brands g') k =
           (if k = slugify t
              then map_option (\<lambda>brand. brand\<lparr>cat_is_popular := True\<rparr>) (map_of (brands g) k)
            else map_of (brands g) k)"
    by (simp add: g'_def map_of_map_keyed)
  moreover have "slugify t \<notin> fst ` set (brands g) \<longrightarrow> g' = g"
    by (simp add: g'_def map_keyed_absent)
  moreover have "g' = g\<lparr>brands := brands g'\<rparr>"
    by (simp add: g'_def)
  ultimately show ?thesis by blast
qed


text \<open>
  The theorem at a registry with the brands \<open>apple\<close> and \<open>sony\<close> and the anchor of
  \<open>apple\<close>.
\<close>

theorem add_popular_brand_frame_witness:
  "\<exists>g'. add_popular_brand (\<lambda>t. t) (example_tag (str ''apple''))
        (empty_globals\<lparr>brands := [(str ''apple'', example_category Brands (str ''apple'')),
           (str ''sony'', example_category Brands (str ''sony''))]\<rparr>) = Inr g'
     \<and> map fst (brands g') = [str ''apple'', str ''sony'']
     \<and> map_of (brands g') (str ''apple'') =
         Some ((example_category Brands (str ''apple''))\<lparr>cat_is_popular := True\<rparr>)
     \<and> map_of (brands g') (str ''sony'') = Some (example_category Brands (str ''sony''))"
proof -
  let ?g = "empty_globals\<lparr>brands := [(str ''apple'', example_category Brands (str ''apple'')),
           (str ''sony'', example_category Brands (str ''sony''))]\<rparr>"
  have h: "get_category_title (example_tag (str ''apple'')) = Inr (str ''apple'')"
    by (simp add: get_category_title_def example_tag_def)
  from add_popular_brand_frame [OF h, of "\<lambda>t. t" ?g]
  obtain g' where g': "add_popular_brand (\<lambda>t. t) (example_tag (str ''apple'')) ?g = Inr g'"
    "map fst (brands g') = map fst (brands ?g)"
    "\<forall>k. map_of (brands g') k =
       (if k = str ''apple''
          then map_option (\<lambda>brand. brand\<lparr>cat_is_popular := True\<rparr>) (map_of (brands ?g) k)
        else map_of (brands ?g) k)"
    by blast
  have ne: "str ''sony'' \<noteq> str ''apple''"
    by (simp add: str_def)
  show ?thesis
    using g'(1) g'(2) g'(3) [rule_format, of "str ''apple''"] g'(3) [rule_format, of "str ''sony''"] ne
    by (intro exI [of _ g']) simp
qed

section \<open>Metro titles\<close>

lemma set_set_add: "set (set_add x s) = insert x (set s)"
  by (auto simp: set_add_def)

lemma zenit_neq: "zenit \<noteq> novokrestovskaya"
  by (simp add: zenit_def novokrestovskaya_def)

lemma removeprefix_append: "removeprefix (p @ s) p = s"
proof -
  have "startswith (p @ s) p" by (induction p) simp_all
  then show ?thesis by (simp add: removeprefix_def)
qed

lemma removeprefix_novokrestovskaya: "removeprefix novokrestovskaya metro_prefix = novokrestovskaya"
  by (simp add: removeprefix_def novokrestovskaya_def metro_prefix_def)

text \<open>
  C10. \<open>add_metro\<close> registers one key \<open>k\<close>, in the metros registry (with the value
  \<open>{'title': k}\<close>) and in the metro set of the service center. The key is the text of
  the tag without the prefix \<open>metro \<close>, except that \<open>Novokrestovskaya\<close> is registered
  as \<open>Zenit\<close>: for that one station the key differs from the source text. The key is
  never \<open>Novokrestovskaya\<close>, so a registry and a metro set that do not hold that title
  do not hold it afterwards.
\<close>

theorem add_metro_normalizes:
  "\<exists>k sc' g'. add_metro sc metro_text g = (sc', g')
     \<and> k \<noteq> novokrestovskaya
     \<and> (metro_text = novokrestovskaya \<or> metro_text = metro_prefix @ novokrestovskaya
          \<longrightarrow> k = zenit \<and> k \<noteq> removeprefix metro_text metro_prefix)
     \<and> (removeprefix metro_text metro_prefix \<noteq> novokrestovskaya
          \<longrightarrow> k = removeprefix metro_text metro_prefix)
     \<and> set (sc_metros sc') = insert k (set (sc_metros sc))
     \<and> fst ` set (metros g') = insert k (fst ` set (metros g))
     \<and> map_of (metros g') k = Some \<lparr>title = k\<rparr>
     \<and> (novokrestovskaya \<notin> set (sc_metros sc) \<longrightarrow> novokrestovskaya \<notin> set (sc_metros sc'))
     \<and> (novokrestovskaya \<notin> fst ` set (metros g)
          \<longrightarrow> novokrestovskaya \<notin> fst ` set (metros g'))"
proof -
  define k where "k = (if removeprefix metro_text metro_prefix = novokrestovskaya then zenit
    else removeprefix metro_text metro_prefix)"
  define sc' where "sc' = sc\<lparr>sc_metros := set_add k (sc_metros sc)\<rparr>"
  define g' where "g' = g\<lparr>metros := AList.update k \<lparr>title = k\<rparr> (metros g)\<rparr>"
  have "add_metro sc metro_text g = (sc', g')"
    by (simp add: add_metro_def Let_def k_def sc'_def g'_def)
  moreover have kn: "k \<noteq> novokrestovskaya"
    by (simp add: k_def zenit_neq)
  moreover have "metro_text = novokrestovskaya \<or> metro_text = metro_prefix @ novokrestovskaya
          \<longrightarrow> k = zenit \<and> k \<noteq> removeprefix metro_text metro_prefix"
    by (auto simp: k_def removeprefix_append removeprefix_novokrestovskaya zenit_neq)
  moreover have "removeprefix metro_text metro_prefix \<noteq> novokrestovskaya
          \<longrightarrow> k = removeprefix metro_text metro_prefix"
    by (simp add: k_def)
  moreover have s: "set (sc_metros sc') = insert k (set (sc_metros sc))"
    by (simp add: sc'_def set_set_add)
  moreover have d: "fst ` set (metros g') = insert k (fst ` set (metros g))"
    by (simp add: g'_def dom_update)
  moreover have "map_of (metros g') k = Some \<lparr>title = k\<rparr>"
    by (simp add: g'_def update_conv')
  moreover have "novokrestovskaya \<notin> set (sc_metros sc) \<longrightarrow> novokrestovskaya \<notin> set (sc_metros sc')"
    using kn by (simp add: s)
  moreover have "novokrestovskaya \<notin> fst ` set (metros g)
          \<longrightarrow> novokrestovskaya \<notin> fst ` set (metros g')"
    using kn by (simp add: d)
  ultimately show ?thesis by blast
qed

text \<open>The theorem at the tag text \<open>metro Novokrestovskaya\<close> and empty registries.\<close>

theorem add_metro_normalizes_witness:
  "add_metro (new_service_center (str ''sc'')) (metro_prefix @ novokrestovskaya) empty_globals =
     ((new_service_center (str ''sc''))\<lparr>sc_metros := [zenit]\<rparr>,
      empty_globals\<lparr>metros := [(zenit, \<lparr>title = zenit\<rparr>)]\<rparr>)
   \<and> novokrestovskaya \<notin> set [zenit]"
proof -
  have e: "add_metro (new_service_center (str ''sc'')) (metro_prefix @ novokrestovskaya)
      empty_globals =
     ((new_service_center (str ''sc''))\<lparr>sc_metros := [zenit]\<rparr>,
      empty_globals\<lparr>metros := [(zenit, \<lparr>title = zenit\<rparr>)]\<rparr>)"
    by (simp add: add_metro_def removeprefix_append Let_def set_add_def new_service_center_def
        empty_globals_def)
  have "\<exists>k. k \<noteq> novokrestovskaya \<and> set [zenit] = insert k {}"
    using add_metro_normalizes [of "new_service_center (str ''sc'')"
      "metro_prefix @ novokrestovskaya" empty_globals]
    unfolding e by (simp add: new_service_center_def)
  then have "novokrestovskaya \<notin> set [zenit]"
    by auto
  with e show ?thesis by simp
qed


section \<open>The service-center registry\<close>

lemma filter_key_update:
  "distinct (map fst al) \<Longrightarrow>
     filter (\<lambda>kv. fst kv = k) (AList.update k v al) = [(k, v)]"
proof (induction al)
  case Nil
  then show ?case by simp
next
  case (Cons p al)
  obtain k' v' where p: "p = (k', v')" by (cases p)
  show ?case
  proof (cases "k' = k")
    case True
    with Cons.prems p have "k \<notin> fst ` set al" by auto
    then have "filter (\<lambda>kv. fst kv = k) al = []"
      by (auto simp: filter_empty_conv)
    with True p show ?thesis by simp
  next
    case False
    with Cons p show ?thesis by simp
  qed
qed

lemma add_to_category_set_devices:
  "set (sc_devices (add_to_category_set c sc)) =
     set (sc_devices sc) \<union> (if cat_type c = Devices then {cat_slug c} else {})"
  by (cases "cat_type c") (auto simp: add_to_category_set_def set_set_add)

lemma add_to_category_set_brands:
  "set (sc_brands (add_to_category_set c sc)) =
     set (sc_brands sc) \<union> (if cat_type c = Brands then {cat_slug c} else {})"
  by (cases "cat_type c") (auto simp: add_to_category_set_def set_set_add)

lemma add_service_center_result:
  assumes "slugify (card_title sc_card) = s"
  shows "add_service_center slugify sc_card category g =
     ((add_to_category_set category
         (case map_of (service_centers g) s of
            Some sc \<Rightarrow> sc | None \<Rightarrow> new_service_center s),
       map_of (service_centers g) s = None),
      g\<lparr>service_centers := AList.update s
         (add_to_category_set category
           (case map_of (service_centers g) s of
              Some sc \<Rightarrow> sc | None \<Rightarrow> new_service_center s))
         (service_centers g)\<rparr>)"
  unfolding assms [symmetric]
  by (simp add: add_service_center_def Let_def split: option.splits)

text \<open>
  C3. Two cards whose titles have the same slug \<open>s\<close> are passed to
  \<open>add_service_center\<close> one after the other, with any two categories. Afterwards the
  registry (a dictionary: its keys are distinct) has exactly one entry under \<open>s\<close>, the
  service center the second call returns, and no key but \<open>s\<close> was added; the second
  call did not create an entity; and the \<open>devices\<close> and \<open>brands\<close> sets of that
  service center are what they were before the two calls (empty for a new service center)
  joined with the slugs of those of the two categories that have the type devices,
  respectively brands.
\<close>

theorem add_service_center_merges:
  assumes "slugify (card_title card1) = s" and "slugify (card_title card2) = s"
    and "distinct (map fst (service_centers g))"
    and "add_service_center slugify card1 category1 g = ((sc1, created1), g1)"
    and "add_service_center slugify card2 category2 g1 = ((sc2, created2), g2)"
  shows "filter (\<lambda>kv. fst kv = s) (service_centers g2) = [(s, sc2)]
    \<and> fst ` set (service_centers g2) = insert s (fst ` set (service_centers g))
    \<and> \<not> created2
    \<and> set (sc_devices sc2) =
        set (sc_devices (case map_of (service_centers g) s of
                           Some sc \<Rightarrow> sc | None \<Rightarrow> new_service_center s))
        \<union> set (map cat_slug (filter (\<lambda>c. cat_type c = Devices) [category1, category2]))
    \<and> set (sc_brands sc2) =
        set (sc_brands (case map_of (service_centers g) s of
                          Some sc \<Rightarrow> sc | None \<Rightarrow> new_service_center s))
        \<union> set (map cat_slug (filter (\<lambda>c. cat_type c = Brands) [category1, category2]))"
proof -
  define sc0 where "sc0 = (case map_of (service_centers g) s of
    Some sc \<Rightarrow> sc | None \<Rightarrow> new_service_center s)"
  have sc1: "sc1 = add_to_category_set category1 sc0"
    and g1: "g1 = g\<lparr>service_centers := AList.update s sc1 (service_centers g)\<rparr>"
    using assms(4) by (auto simp: add_service_center_result [of slugify card1 s, OF assms(1)] sc0_def)
  have m1: "map_of (service_centers g1) s = Some sc1"
    by (simp add: g1 update_conv')
  have sc2: "sc2 = add_to_category_set category2 sc1"
    and g2: "g2 = g1\<lparr>service_centers := AList.update s sc2 (service_centers g1)\<rparr>"
    and c2: "\<not> created2"
    using assms(5) by (auto simp: add_service_center_result [of slugify card2 s, OF assms(2)] m1)
  have d1: "distinct (map fst (service_centers g1))"
    by (simp add: g1 distinct_update assms(3))
  have "filter (\<lambda>kv. fst kv = s) (service_centers g2) = [(s, sc2)]"
    by (simp add: g2 filter_key_update d1)
  moreover have "fst ` set (service_centers g2) = insert s (fst ` set (service_centers g))"
    by (simp add: g2 g1 dom_update)
  moreover have "set (sc_devices sc2) = set (sc_devices sc0) \<union> set (map cat_slug (filter (\<lambda>c. cat_type c = Devices) [category1, category2]))"
    by (auto simp: sc2 sc1 add_to_category_set_devices)
  moreover have "set (sc_brands sc2) = set (sc_brands sc0) \<union> set (map cat_slug (filter (\<lambda>c. cat_type c = Brands) [category1, category2]))"
    by (auto simp: sc2 sc1 add_to_category_set_brands)
  ultimately show ?thesis
    using c2 by (simp add: sc0_def)
qed


text \<open>
  The theorem at the card \<open>fixit\<close>, seen first in the device category \<open>phones\<close>
  and then in the brand category \<open>apple\<close>, from empty registries.
\<close>

theorem add_service_center_merges_witness:
  "(case add_service_center (\<lambda>t. t) (example_card (str ''fixit''))
           (example_category Devices (str ''phones'')) empty_globals of
      ((sc1, created1), g1) \<Rightarrow>
        (case add_service_center (\<lambda>t. t) (example_card (str ''fixit''))
                (example_category Brands (str ''apple'')) g1 of
           ((sc2, created2), g2) \<Rightarrow>
             filter (\<lambda>kv. fst kv = str ''fixit'') (service_centers g2) = [(str ''fixit'', sc2)]
             \<and> \<not> created2
             \<and> set (sc_devices sc2) = {str ''phones''}
             \<and> set (sc_brands sc2) = {str ''apple''}))"
proof -
  obtain sc1 created1 g1 where a1:
    "add_service_center (\<lambda>t. t) (example_card (str ''fixit''))
       (example_category Devices (str ''phones'')) empty_globals = ((sc1, created1), g1)"
    by (metis surj_pair)
  obtain sc2 created2 g2 where a2:
    "add_service_center (\<lambda>t. t) (example_card (str ''fixit''))
       (example_category Brands (str ''apple'')) g1 = ((sc2, created2), g2)"
    by (metis surj_pair)
  have d: "distinct (map fst (service_centers empty_globals))"
    by (simp add: empty_globals_def)
  have t: "(\<lambda>t. t) (card_title (example_card (str ''fixit''))) = str ''fixit''"
    by (simp add: example_card_def)
  have r: "filter (\<lambda>kv. fst kv = str ''fixit'') (service_centers g2) = [(str ''fixit'', sc2)]
      \<and> \<not> created2
      \<and> set (sc_devices sc2) = {str ''phones''}
      \<and> set (sc_brands sc2) = {str ''apple''}"
    using add_service_center_merges [OF t t d a1 a2]
    by (simp add: example_category_def empty_globals_def new_service_center_def)
  show ?thesis
    using r by (simp add: a1 a2)
qed


section \<open>Upserts of a present key\<close>

lemma map_fst_update_present:
  "map_of al k = Some v \<Longrightarrow> map fst (AList.update k v' al) = map fst al"
  by (induction al) (auto split: if_splits)

lemma add_to_category_set_frame:
  "(add_to_category_set c sc)\<lparr>sc_devices := sc_devices sc, sc_brands := sc_brands sc\<rparr> = sc"
  by (cases "cat_type c") (simp_all add: add_to_category_set_def)

text \<open>
  C4, as amended. When the slug of the card is already a key of the service-center
  registry, \<open>add_service_center\<close> reports \<open>created = False\<close> and returns the service
  center that the registry holds under that key after the call; the keys of the registry
  and their order are unchanged, and the returned service center is the stored one in
  every field but the two category sets \<open>devices\<close> and \<open>brands\<close>. When the slug of
  the tag is already a key of the registry of its type, \<open>add_category\<close> leaves every
  registry unchanged (the stored category stays as first written); what it returns is the
  category built from the tag of this call, not popular, with the thumbnail of this tag,
  and it returns no flag.
\<close>

theorem upsert_existing_key:
  "(map_of (service_centers g) (slugify (card_title sc_card)) = Some sc_old \<longrightarrow>
      (\<exists>sc g'. add_service_center slugify sc_card category g = ((sc, False), g')
         \<and> map_of (service_centers g') (slugify (card_title sc_card)) = Some sc
         \<and> map fst (service_centers g') = map fst (service_centers g)
         \<and> sc\<lparr>sc_devices := sc_devices sc_old, sc_brands := sc_brands sc_old\<rparr> = sc_old))
   \<and> (get_category_title category_tag = Inr t
        \<and> map_of (global_category category_type g) (slugify t) = Some c_old \<longrightarrow>
      (\<exists>c. add_category slugify category_type category_tag g = Inr (c, g)
         \<and> cat_title c = t \<and> cat_slug c = slugify t \<and> cat_type c = category_type
         \<and> \<not> cat_is_popular c
         \<and> cat_thumbnail_url c =
             (case tag_img category_tag of
                None \<Rightarrow> None
              | Some thumbnail \<Rightarrow>
                  if truthy (img_src thumbnail) then img_src thumbnail
                  else if truthy (img_data_src thumbnail) then img_data_src thumbnail
                  else None)
         \<and> cat_brands c = (if category_type = Devices then Some [] else None)
         \<and> cat_services c = (if category_type = Devices then Some [] else None)))"
proof (intro conjI impI)
  assume m: "map_of (service_centers g) (slugify (card_title sc_card)) = Some sc_old"
  define sc where "sc = add_to_category_set category sc_old"
  define g' where "g' = g\<lparr>service_centers :=
    AList.update (slugify (card_title sc_card)) sc (service_centers g)\<rparr>"
  have "add_service_center slugify sc_card category g = ((sc, False), g')"
    by (simp add: add_service_center_def Let_def m sc_def g'_def)
  moreover have "map_of (service_centers g') (slugify (card_title sc_card)) = Some sc"
    by (simp add: g'_def update_conv')
  moreover have "map fst (service_centers g') = map fst (service_centers g)"
    by (simp add: g'_def map_fst_update_present [OF m])
  moreover have "sc\<lparr>sc_devices := sc_devices sc_old, sc_brands := sc_brands sc_old\<rparr> = sc_old"
    by (simp add: sc_def add_to_category_set_frame)
  ultimately show "\<exists>sc g'. add_service_center slugify sc_card category g = ((sc, False), g')
         \<and> map_of (service_centers g') (slugify (card_title sc_card)) = Some sc
         \<and> map fst (service_centers g') = map fst (service_centers g)
         \<and> sc\<lparr>sc_devices := sc_devices sc_old, sc_brands := sc_brands sc_old\<rparr> = sc_old"
    by blast
next
  assume a: "get_category_title category_tag = Inr t
    \<and> map_of (global_category category_type g) (slugify t) = Some c_old"
  define thumb where "thumb =
    (case tag_img category_tag of
       None \<Rightarrow> None
     | Some thumbnail \<Rightarrow>
         if truthy (img_src thumbnail) then img_src thumbnail
         else if truthy (img_data_src thumbnail) then img_data_src thumbnail
         else None)"
  define c where "c = \<lparr>cat_title = t, cat_slug = slugify t, cat_type = category_type,
    cat_thumbnail_url = thumb, cat_is_popular = False,
    cat_brands = (if category_type = Devices then Some [] else None),
    cat_services = (if category_type = Devices then Some [] else None)\<rparr>"
  have "add_category slugify category_type category_tag g = Inr (c, g)"
    using a
    by (cases "tag_img category_tag"; cases category_type)
      (simp_all add: add_category_def Let_def c_def thumb_def)
  moreover have "cat_title c = t \<and> cat_slug c = slugify t \<and> cat_type c = category_type
      \<and> \<not> cat_is_popular c \<and> cat_thumbnail_url c = thumb
      \<and> cat_brands c = (if category_type = Devices then Some [] else None)
      \<and> cat_services c = (if category_type = Devices then Some [] else None)"
    by (simp add: c_def)
  ultimately show "\<exists>c. add_category slugify category_type category_tag g = Inr (c, g)
         \<and> cat_title c = t \<and> cat_slug c = slugify t \<and> cat_type c = category_type
         \<and> \<not> cat_is_popular c
         \<and> cat_thumbnail_url c =
             (case tag_img category_tag of
                None \<Rightarrow> None
              | Some thumbnail \<Rightarrow>
                  if truthy (img_src thumbnail) then img_src thumbnail
                  else if truthy (img_data_src thumbnail) then img_data_src thumbnail
                  else None)
         \<and> cat_brands c = (if category_type = Devices then Some [] else None)
         \<and> cat_services c = (if category_type = Devices then Some [] else None)"
    unfolding thumb_def by blast
qed

text \<open>
  C4 as stated fails for \<open>add_category\<close>. The brand \<open>apple\<close> is first seen with a
  logo image and is stored with that thumbnail; seen again as a plain anchor, the call
  returns a category without thumbnail, which is not the stored one, and the registry
  keeps the first.
\<close>

theorem add_category_returns_stored_counterexample:
  "add_category (\<lambda>t. t) Brands (example_logo_tag (str ''apple'') (str ''/a.png'')) empty_globals =
     Inr ((example_category Brands (str ''apple''))\<lparr>cat_thumbnail_url := Some (str ''/a.png'')\<rparr>,
          empty_globals\<lparr>brands := [(str ''apple'',
            (example_category Brands (str ''apple''))\<lparr>cat_thumbnail_url := Some (str ''/a.png'')\<rparr>)]\<rparr>)
   \<and> add_category (\<lambda>t. t) Brands (example_tag (str ''apple''))
       (empty_globals\<lparr>brands := [(str ''apple'',
            (example_category Brands (str ''apple''))\<lparr>cat_thumbnail_url := Some (str ''/a.png'')\<rparr>)]\<rparr>) =
     Inr (example_category Brands (str ''apple''),
          empty_globals\<lparr>brands := [(str ''apple'',
            (example_category Brands (str ''apple''))\<lparr>cat_thumbnail_url := Some (str ''/a.png'')\<rparr>)]\<rparr>)
   \<and> example_category Brands (str ''apple'') \<noteq>
       (example_category Brands (str ''apple''))\<lparr>cat_thumbnail_url := Some (str ''/a.png'')\<rparr>"
  by (simp add: add_category_def get_category_title_def example_logo_tag_def example_tag_def
      example_category_def empty_globals_def global_category_def set_global_category_def
      truthy_def logo_prefix_def logo_word_def removeprefix_def str_def Let_def)


text \<open>
  The theorem at registries that hold the popular brand \<open>apple\<close> and the service
  center \<open>fixit\<close>, for the card of \<open>fixit\<close> and the anchor of \<open>apple\<close>.
\<close>

theorem upsert_existing_key_witness:
  "(\<exists>sc g'. add_service_center (\<lambda>t. t) (example_card (str ''fixit''))
        (example_category Brands (str ''apple''))
        (empty_globals\<lparr>brands := [(str ''apple'',
             (example_category Brands (str ''apple''))\<lparr>cat_is_popular := True\<rparr>)],
           service_centers := [(str ''fixit'', new_service_center (str ''fixit''))]\<rparr>) =
        ((sc, False), g')
      \<and> map_of (service_centers g') (str ''fixit'') = Some sc
      \<and> map fst (service_centers g') = [str ''fixit'']
      \<and> sc\<lparr>sc_devices := [], sc_brands := []\<rparr> = new_service_center (str ''fixit''))
   \<and> (\<exists>c. add_category (\<lambda>t. t) Brands (example_tag (str ''apple''))
        (empty_globals\<lparr>brands := [(str ''apple'',
             (example_category Brands (str ''apple''))\<lparr>cat_is_popular := True\<rparr>)],
           service_centers := [(str ''fixit'', new_service_center (str ''fixit''))]\<rparr>) =
        Inr (c, empty_globals\<lparr>brands := [(str ''apple'',
             (example_category Brands (str ''apple''))\<lparr>cat_is_popular := True\<rparr>)],
           service_centers := [(str ''fixit'', new_service_center (str ''fixit''))]\<rparr>)
      \<and> cat_title c = str ''apple'' \<and> \<not> cat_is_popular c)"
proof -
  let ?g = "empty_globals\<lparr>brands := [(str ''apple'',
             (example_category Brands (str ''apple''))\<lparr>cat_is_popular := True\<rparr>)],
           service_centers := [(str ''fixit'', new_service_center (str ''fixit''))]\<rparr>"
  have p1: "map_of (service_centers ?g) ((\<lambda>t. t) (card_title (example_card (str ''fixit'')))) =
      Some (new_service_center (str ''fixit''))"
    by (simp add: example_card_def)
  have p2: "get_category_title (example_tag (str ''apple'')) = Inr (str ''apple'')
      \<and> map_of (global_category Brands ?g) ((\<lambda>t. t) (str ''apple'')) =
          Some ((example_category Brands (str ''apple''))\<lparr>cat_is_popular := True\<rparr>)"
    by (simp add: get_category_title_def example_tag_def global_category_def)
  note th = upsert_existing_key [where g = ?g and slugify = "\<lambda>t. t"
      and sc_card = "example_card (str ''fixit'')" and sc_old = "new_service_center (str ''fixit'')"
      and category = "example_category Brands (str ''apple'')"
      and category_tag = "example_tag (str ''apple'')" and t = "str ''apple''"
      and category_type = Brands
      and c_old = "(example_category Brands (str ''apple''))\<lparr>cat_is_popular := True\<rparr>"]
  have a: "\<exists>sc g'. add_service_center (\<lambda>t. t) (example_card (str ''fixit''))
        (example_category Brands (str ''apple'')) ?g = ((sc, False), g')
      \<and> map_of (service_centers g') (str ''fixit'') = Some sc
      \<and> map fst (service_centers g') = [str ''fixit'']
      \<and> sc\<lparr>sc_devices := [], sc_brands := []\<rparr> = new_service_center (str ''fixit'')"
    using th [THEN conjunct1, rule_format, OF p1]
    by (simp add: example_card_def new_service_center_def)
  have b: "\<exists>c. add_category (\<lambda>t. t) Brands (example_tag (str ''apple'')) ?g = Inr (c, ?g)
      \<and> cat_title c = str ''apple'' \<and> \<not> cat_is_popular c"
    using th [THEN conjunct2, rule_format, OF p2]
    by blast
  from a b show ?thesis by blast
qed


section \<open>Enrichment at most once\<close>

lemma fold_add_metro_service_centers:
  "service_centers (snd (fold (\<lambda>metro_tag (sc, g). add_metro sc metro_tag g) ts (sc, g))) =
     service_centers g"
  by (induction ts arbitrary: sc g) (simp_all add: add_metro_def Let_def)

lemma fold_add_feature_service_centers:
  "service_centers (snd (fold (\<lambda>feature_tag (sc, g). add_feature sc feature_tag g) ts (sc, g))) =
     service_centers g"
  by (induction ts arbitrary: sc g) (simp_all add: add_feature_def)

lemma fold_add_advantage_service_centers:
  "service_centers (snd (fold (\<lambda>advantage_tag (sc, g). add_advantage sc advantage_tag g) ts (sc, g))) =
     service_centers g"
  by (induction ts arbitrary: sc g) (simp_all add: add_advantage_def)

lemma keys_store_sc:
  "fst ` set (service_centers (store_sc sc g)) = insert (sc_slug sc) (fst ` set (service_centers g))"
  by (simp add: store_sc_def dom_update)

lemma map_of_None_keys: "map_of al k = None \<longleftrightarrow> k \<notin> fst ` set al"
  by (simp add: map_of_eq_None_iff)

lemma begin_keys:
  assumes "parse_service_center_begin slugify sc_card category g = (r, g')"
  shows "fst ` set (service_centers g) \<subseteq> fst ` set (service_centers g')
    \<and> slugify (card_title sc_card) \<in> fst ` set (service_centers g')
    \<and> (r \<noteq> Returned \<longrightarrow> slugify (card_title sc_card) \<notin> fst ` set (service_centers g))"
proof -
  define s where "s = slugify (card_title sc_card)"
  define sc1 where "sc1 = add_to_category_set category
    (case map_of (service_centers g) s of Some sc \<Rightarrow> sc | None \<Rightarrow> new_service_center s)"
  define g1 where "g1 = g\<lparr>service_centers := AList.update s sc1 (service_centers g)\<rparr>"
  have a: "add_service_center slugify sc_card category g =
      ((sc1, map_of (service_centers g) s = None), g1)"
    by (simp add: add_service_center_result [of slugify sc_card s] s_def sc1_def g1_def)
  have k1: "fst ` set (service_centers g1) = insert s (fst ` set (service_centers g))"
    by (simp add: g1_def dom_update)
  show ?thesis
  proof (cases "map_of (service_centers g) s = None")
    case False
    with assms a have "r = Returned" "g' = g1"
      by (simp_all add: parse_service_center_begin_def)
    with k1 show ?thesis by (auto simp: s_def)
  next
    case True
    obtain sc2 g2 where f: "fold (\<lambda>metro_tag (sc, g). add_metro sc metro_tag g)
        (card_metros_tags sc_card) (sc1, g1) = (sc2, g2)"
      by (metis surj_pair)
    have k2: "service_centers g2 = service_centers g1"
      using fold_add_metro_service_centers [of "card_metros_tags sc_card" sc1 g1] f by simp
    from assms a True f obtain sc3 where "g' = store_sc sc3 g2"
      by (auto simp: parse_service_center_begin_def split: prod.splits option.splits)
    with k1 k2 True show ?thesis
      by (auto simp: keys_store_sc s_def map_of_None_keys)
  qed
qed

lemma enrich_service_centers:
  "enrich sc html g = (r, sc', g') \<Longrightarrow> service_centers g' = service_centers g"
proof -
  assume e: "enrich sc html g = (r, sc', g')"
  obtain e1 sc1 where l: "for_each (\<lambda>location_tag sc. add_location sc location_tag
      (page_coords_addresses html)) (page_locations html) sc = (e1, sc1)"
    by (metis surj_pair)
  obtain sc2 g2 where f: "fold (\<lambda>feature_tag (sc, g). add_feature sc feature_tag g)
      (page_features html) (sc1, g) = (sc2, g2)"
    by (metis surj_pair)
  obtain sc3 g3 where a: "fold (\<lambda>advantage_tag (sc, g). add_advantage sc advantage_tag g)
      (page_advantages html) (sc2, g2) = (sc3, g3)"
    by (metis surj_pair)
  have "service_centers g2 = service_centers g"
    using fold_add_feature_service_centers [of "page_features html" sc1 g] f by simp
  moreover have "service_centers g3 = service_centers g2"
    using fold_add_advantage_service_centers [of "page_advantages html" sc2 g2] a by simp
  moreover from e l f a have "g' = g \<or> g' = g3"
    by (auto simp: enrich_def Let_def split: option.splits)
  ultimately show ?thesis by auto
qed

lemma resume_keys:
  "fst ` set (service_centers g) \<subseteq>
     fst ` set (service_centers (snd (parse_service_center_resume slug html g)))"
proof (cases "map_of (service_centers g) slug")
  case None
  then show ?thesis by (simp add: parse_service_center_resume_def)
next
  case (Some sc)
  obtain r sc' g' where e: "enrich sc html g = (r, sc', g')"
    by (metis prod_cases3)
  from enrich_service_centers [OF e] Some e show ?thesis
    by (auto simp: parse_service_center_resume_def keys_store_sc)
qed


lemma created_flags_same_slug:
  assumes "\<forall>call \<in> set calls. slugify (card_title (fst call)) = s"
  shows "fst (add_service_centers slugify calls g) =
     (case calls of
        [] \<Rightarrow> []
      | _ # rest \<Rightarrow> (s \<notin> fst ` set (service_centers g)) # replicate (length rest) False)"
  using assms
proof (induction calls arbitrary: g)
  case Nil
  then show ?case by simp
next
  case (Cons call calls)
  have s: "slugify (card_title (fst call)) = s"
    using Cons.prems by simp
  note r = add_service_center_result [of slugify "fst call" s "snd call" g, OF s]
  define g1 where "g1 = snd (add_service_center slugify (fst call) (snd call) g)"
  have k: "s \<in> fst ` set (service_centers g1)"
    by (simp add: g1_def r dom_update)
  have ih: "fst (add_service_centers slugify calls g1) =
      (case calls of [] \<Rightarrow> [] | _ # rest \<Rightarrow> False # replicate (length rest) False)"
    using Cons.IH [of g1] Cons.prems k by (simp split: list.splits)
  have "fst (add_service_centers slugify (call # calls) g) =
      (s \<notin> fst ` set (service_centers g)) # fst (add_service_centers slugify calls g1)"
    by (simp add: g1_def r map_of_None_keys split: prod.splits)
  also have "fst (add_service_centers slugify calls g1) = replicate (length calls) False"
    by (simp add: ih split: list.splits)
  finally show ?case by simp
qed

lemma event_loop_step_inv:
  assumes "loop_inv st"
  shows "loop_inv (event_loop_step slugify ev st)"
proof -
  obtain g awaiting enriched where st: "st = (g, awaiting, enriched)"
    by (cases st)
  from assms st have sub: "set awaiting \<union> set enriched \<subseteq> fst ` set (service_centers g)"
    and dist: "distinct (awaiting @ enriched)"
    by (simp_all add: loop_inv_def)
  show ?thesis
  proof (cases ev)
    case (Start sc_card category)
    obtain r g' where b: "parse_service_center_begin slugify sc_card category g = (r, g')"
      by (metis surj_pair)
    note k = begin_keys [OF b]
    show ?thesis
    proof (cases "r = Awaiting")
      case True
      with k have "slugify (card_title sc_card) \<notin> fst ` set (service_centers g)"
        by simp
      with sub dist k True show ?thesis
        by (auto simp: loop_inv_def event_loop_step_def st Start b)
    next
      case False
      then have "event_loop_step slugify ev st = (g', awaiting, enriched)"
        by (cases r) (simp_all add: event_loop_step_def st Start b)
      with sub dist k show ?thesis
        by (auto simp: loop_inv_def)
    qed
  next
    case (Arrive slug html)
    show ?thesis
    proof (cases "slug \<in> set awaiting")
      case True
      define g' where "g' = snd (parse_service_center_resume slug html g)"
      have k: "fst ` set (service_centers g) \<subseteq> fst ` set (service_centers g')"
        unfolding g'_def by (rule resume_keys)
      have "set (remove1 slug awaiting) \<subseteq> set awaiting"
        by (rule set_remove1_subset)
      with sub True k have sub':
        "set (remove1 slug awaiting) \<union> set (enriched @ [slug]) \<subseteq> fst ` set (service_centers g')"
        by (simp only: set_append list.set) blast
      from dist True have "slug \<notin> set enriched" "slug \<notin> set (remove1 slug awaiting)"
        "distinct (remove1 slug awaiting)" "distinct enriched"
        "set (remove1 slug awaiting) \<inter> set enriched = {}"
        by auto
      then have dist': "distinct (remove1 slug awaiting @ enriched @ [slug])"
        by auto
      have "event_loop_step slugify ev st = (g', remove1 slug awaiting, enriched @ [slug])"
        using True by (simp add: event_loop_step_def st Arrive g'_def)
      with sub' dist' show ?thesis
        by (simp add: loop_inv_def)
    next
      case False
      with assms show ?thesis
        by (simp add: event_loop_step_def st Arrive)
    qed
  qed
qed

lemma fold_event_loop_inv:
  "loop_inv st \<Longrightarrow> loop_inv (fold (event_loop_step slugify) evs st)"
  by (induction evs arbitrary: st) (simp_all add: event_loop_step_inv)

text \<open>
  C2. First, for calls of \<open>add_service_center\<close> one after the other whose cards all
  have the slug \<open>s\<close>, not yet registered: the first call returns \<open>created = True\<close>
  and every later call returns \<open>created = False\<close>. Second, a call of
  \<open>parse_service_center\<close> for a registered slug returns before its first \<open>await\<close>.
  Third, whatever the order in which calls of \<open>parse_service_center\<close> start and detail
  pages arrive, from any registries, no slug is enriched twice.
\<close>

theorem enrichment_at_most_once:
  "((\<forall>call \<in> set calls. slugify (card_title (fst call)) = s)
      \<and> s \<notin> fst ` set (service_centers g) \<and> calls \<noteq> [] \<longrightarrow>
      fst (add_service_centers slugify calls g) = True # replicate (length calls - 1) False)
   \<and> (parse_service_center_begin slugify sc_card category h = (r, h')
        \<and> slugify (card_title sc_card) \<in> fst ` set (service_centers h) \<longrightarrow> r = Returned)
   \<and> distinct (snd (snd (event_loop slugify evs g)))"
proof (intro conjI impI)
  assume a: "(\<forall>call \<in> set calls. slugify (card_title (fst call)) = s)
      \<and> s \<notin> fst ` set (service_centers g) \<and> calls \<noteq> []"
  then show "fst (add_service_centers slugify calls g) = True # replicate (length calls - 1) False"
    using created_flags_same_slug [of calls slugify s g]
    by (cases calls) simp_all
next
  assume "parse_service_center_begin slugify sc_card category h = (r, h')
        \<and> slugify (card_title sc_card) \<in> fst ` set (service_centers h)"
  then show "r = Returned"
    using begin_keys [of slugify sc_card category h r h'] by blast
next
  have "loop_inv (g, [], [])"
    by (simp add: loop_inv_def)
  then have "loop_inv (event_loop slugify evs g)"
    unfolding event_loop_def by (rule fold_event_loop_inv)
  then show "distinct (snd (snd (event_loop slugify evs g)))"
    by (auto simp: loop_inv_def split: prod.splits)
qed


text \<open>
  The theorem at two sightings of the card \<open>fixit\<close>: the flags are \<open>True, False\<close>,
  the call for the registered slug returns, and of two starts and two arrivals of the
  page only one enrichment runs.
\<close>

theorem enrichment_at_most_once_witness:
  "fst (add_service_centers (\<lambda>t. t)
       [(example_card (str ''fixit''), example_category Devices (str ''phones'')),
        (example_card (str ''fixit''), example_category Brands (str ''apple''))]
       empty_globals) = [True, False]
   \<and> fst (parse_service_center_begin (\<lambda>t. t) (example_card (str ''fixit''))
        (example_category Brands (str ''apple''))
        (empty_globals\<lparr>service_centers :=
           [(str ''fixit'', new_service_center (str ''fixit''))]\<rparr>)) = Returned
   \<and> distinct (snd (snd (event_loop (\<lambda>t. t)
        [Start (example_card (str ''fixit'')) (example_category Devices (str ''phones'')),
         Start (example_card (str ''fixit'')) (example_category Brands (str ''apple'')),
         Arrive (str ''fixit'') example_page, Arrive (str ''fixit'') example_page]
        empty_globals)))
   \<and> snd (snd (event_loop (\<lambda>t. t)
        [Start (example_card (str ''fixit'')) (example_category Devices (str ''phones'')),
         Start (example_card (str ''fixit'')) (example_category Brands (str ''apple'')),
         Arrive (str ''fixit'') example_page, Arrive (str ''fixit'') example_page]
        empty_globals)) = [str ''fixit'']"
proof -
  let ?calls = "[(example_card (str ''fixit''), example_category Devices (str ''phones'')),
        (example_card (str ''fixit''), example_category Brands (str ''apple''))]"
  let ?h = "empty_globals\<lparr>service_centers :=
           [(str ''fixit'', new_service_center (str ''fixit''))]\<rparr>"
  let ?evs = "[Start (example_card (str ''fixit'')) (example_category Devices (str ''phones'')),
         Start (example_card (str ''fixit'')) (example_category Brands (str ''apple'')),
         Arrive (str ''fixit'') example_page, Arrive (str ''fixit'') example_page]"
  obtain r h' where b: "parse_service_center_begin (\<lambda>t. t) (example_card (str ''fixit''))
        (example_category Brands (str ''apple'')) ?h = (r, h')"
    by (metis surj_pair)
  note th = enrichment_at_most_once [where slugify = "\<lambda>t. t" and calls = ?calls
      and s = "str ''fixit''" and g = empty_globals and sc_card = "example_card (str ''fixit'')"
      and category = "example_category Brands (str ''apple'')" and h = ?h and r = r and h' = h'
      and evs = ?evs]
  have p1: "(\<forall>call \<in> set ?calls. (\<lambda>t. t) (card_title (fst call)) = str ''fixit'')
      \<and> str ''fixit'' \<notin> fst ` set (service_centers empty_globals) \<and> ?calls \<noteq> []"
    by (simp add: example_card_def empty_globals_def)
  have p2: "parse_service_center_begin (\<lambda>t. t) (example_card (str ''fixit''))
        (example_category Brands (str ''apple'')) ?h = (r, h')
      \<and> (\<lambda>t. t) (card_title (example_card (str ''fixit''))) \<in> fst ` set (service_centers ?h)"
    using b by (simp add: example_card_def)
  have c1: "fst (add_service_centers (\<lambda>t. t) ?calls empty_globals) = [True, False]"
    using th [THEN conjunct1, rule_format, OF p1] by simp
  have c2: "fst (parse_service_center_begin (\<lambda>t. t) (example_card (str ''fixit''))
        (example_category Brands (str ''apple'')) ?h) = Returned"
    using th [THEN conjunct2, THEN conjunct1, rule_format, OF p2] b by simp
  have c3: "distinct (snd (snd (event_loop (\<lambda>t. t) ?evs empty_globals)))"
    using th [THEN conjunct2, THEN conjunct2] .
  have c4: "snd (snd (event_loop (\<lambda>t. t) ?evs empty_globals)) = [str ''fixit'']"
    by code_simp
  from c1 c2 c3 c4 show ?thesis by blast
qed


section \<open>The insert statement\<close>

lemma split_ws_acc_word:
  "nospace w \<Longrightarrow> split_ws_acc cur (w @ rest) = split_ws_acc (cur @ w) rest"
  by (induction w arbitrary: cur) (simp_all add: nospace_def)

lemma split_ws_acc_spaces:
  "list_all isspace sp \<Longrightarrow> split_ws_acc [] (sp @ rest) = split_ws_acc [] rest"
  by (induction sp) simp_all

lemma split_ws_acc_token:
  assumes "nospace w" "w \<noteq> []" "isspace c"
  shows "split_ws_acc [] (w @ c # rest) = w # split_ws_acc [] rest"
  using assms by (simp add: split_ws_acc_word)

lemma split_ws_acc_last:
  assumes "nospace w" "w \<noteq> []"
  shows "split_ws_acc [] w = [w]"
  using split_ws_acc_word [OF assms(1), of "[]" "[]"] assms(2) by simp

lemma sql_name_nospace: "sql_name w \<Longrightarrow> nospace w"
  by (auto simp: sql_name_def nospace_def isspace_def list_all_iff)

lemma sql_name_nonempty: "sql_name w \<Longrightarrow> w \<noteq> []"
  by (simp add: sql_name_def)

lemma sql_name_last: "sql_name w \<Longrightarrow> last w \<noteq> 44"
proof -
  assume i: "sql_name w"
  then have "w \<noteq> []" by (simp add: sql_name_def)
  then have "last w \<in> set w" by simp
  moreover from i have "\<forall>c\<in>set w. c \<noteq> 44"
    by (auto simp: sql_name_def list_all_iff)
  ultimately show ?thesis by blast
qed

lemma sql_name_not_paren: "sql_name w \<Longrightarrow> w \<noteq> str '')''"
  by (auto simp: sql_name_def str_def)

text \<open>the words of a comma-separated list that white space follows\<close>

lemma join_Cons: "ws \<noteq> [] \<Longrightarrow> join sep (x # ws) = x @ sep @ join sep ws"
  by (cases ws) simp_all

lemma split_ws_join:
  assumes "ws \<noteq> []" "list_all nospace ws" "list_all (\<lambda>w. w \<noteq> []) ws" "isspace c"
  shows "split_ws_acc [] (join [44, 32] ws @ c # rest) =
           map (\<lambda>w. w @ [44]) (butlast ws) @ last ws # split_ws_acc [] rest"
  using assms
proof (induction ws rule: list_nonempty_induct)
  case (single x)
  then show ?case by (simp add: split_ws_acc_token)
next
  case (cons x ws)
  have n: "nospace (x @ [44])" "x @ [44] \<noteq> []"
    using cons.prems by (simp_all add: nospace_def isspace_def)
  have s32: "isspace 32" by (simp add: isspace_def)
  have "split_ws_acc [] (join [44, 32] (x # ws) @ c # rest) =
      split_ws_acc [] ((x @ [44]) @ 32 # (join [44, 32] ws @ c # rest))"
    using cons.hyps by (simp add: join_Cons)
  also have "\<dots> = (x @ [44]) # split_ws_acc [] (join [44, 32] ws @ c # rest)"
    by (rule split_ws_acc_token [OF n s32])
  also have "split_ws_acc [] (join [44, 32] ws @ c # rest) =
      map (\<lambda>w. w @ [44]) (butlast ws) @ last ws # split_ws_acc [] rest"
    using cons.IH cons.prems by simp
  finally show ?case
    using cons.hyps by simp
qed


lemma sql_name_plain: "sql_name w \<Longrightarrow> plain_word w"
  using sql_name_last [of w] by (auto simp: plain_word_def sql_name_def)

lemma sql_name_param_plain: "sql_name w \<Longrightarrow> plain_word (58 # w)"
  using sql_name_last [of w] by (auto simp: plain_word_def sql_name_def)

lemma sql_name_param_nospace: "sql_name w \<Longrightarrow> nospace (58 # w)"
  using sql_name_nospace [of w] by (simp add: nospace_def isspace_def)

lemma parse_names_words:
  assumes "ws \<noteq> []" "list_all plain_word ws"
  shows "parse_names (map (\<lambda>w. w @ [44]) (butlast ws) @ last ws # [41] # rest) =
           Some (ws, rest)"
  using assms
proof (induction ws rule: list_nonempty_induct)
  case (single x)
  then show ?case
    by (simp add: str_def plain_word_def strip_comma_def)
next
  case (cons x ws)
  have "strip_comma (x @ [44]) = x" "x @ [44] \<noteq> str '')''"
    by (auto simp: strip_comma_def str_def)
  with cons show ?case by simp
qed

lemma query_words:
  assumes "sql_name tbl" "flds \<noteq> []" "list_all sql_name flds"
  shows "split_ws (get_insert_query tbl flds) =
     [str ''INSERT'', str ''OR'', str ''IGNORE'', str ''INTO'', tbl, str ''(''] @
     (map (\<lambda>w. w @ [44]) (butlast flds) @ last flds # [41] #
       ([str ''VALUES'', str ''(''] @
        (map (\<lambda>w. w @ [44]) (butlast (map ((#) 58) flds)) @ last (map ((#) 58) flds) #
          [41] # [])))"
proof -
  have f1: "list_all nospace flds" "list_all (\<lambda>w. w \<noteq> []) flds"
    using assms(3) by (auto simp: list_all_iff sql_name_nospace sql_name_nonempty)
  have f2: "map ((#) 58) flds \<noteq> []" "list_all nospace (map ((#) 58) flds)"
    "list_all (\<lambda>w. w \<noteq> []) (map ((#) 58) flds)"
    using assms(2,3) by (auto simp: list_all_iff sql_name_param_nospace)
  have s10: "isspace 10" by (simp add: isspace_def)
  have a: "\<And>X. split_ws_acc [] (str ''INSERT OR IGNORE INTO '' @ X) =
      [str ''INSERT'', str ''OR'', str ''IGNORE'', str ''INTO''] @ split_ws_acc [] X"
    by (simp add: str_def isspace_def)
  have b: "\<And>Y. split_ws_acc [] (tbl @ 32 # (str ''('' @ [10] @ str ''        '' @ Y)) =
      [tbl, str ''(''] @ split_ws_acc [] Y"
    using assms(1)
    by (subst split_ws_acc_token)
       (simp_all add: sql_name_nospace sql_name_nonempty str_def isspace_def)
  have c: "\<And>Z. split_ws_acc [] (join [44, 32] flds @ 10 #
        (str ''    ) VALUES ('' @ [10] @ str ''        '' @ Z)) =
      map (\<lambda>w. w @ [44]) (butlast flds) @ last flds # [41] #
        ([str ''VALUES'', str ''(''] @ split_ws_acc [] Z)"
    by (subst split_ws_join [OF assms(2) f1 s10]) (simp add: str_def isspace_def)
  have d: "split_ws_acc [] (join [44, 32] (map ((#) 58) flds) @ 10 # str ''    )'') =
      map (\<lambda>w. w @ [44]) (butlast (map ((#) 58) flds)) @ last (map ((#) 58) flds) #
        [41] # []"
    by (subst split_ws_join [OF f2 s10]) (simp add: str_def isspace_def)
  have q: "get_insert_query tbl flds =
      str ''INSERT OR IGNORE INTO '' @ (tbl @ 32 # (str ''('' @ [10] @ str ''        '' @
        (join [44, 32] flds @ 10 # (str ''    ) VALUES ('' @ [10] @ str ''        '' @
          (join [44, 32] (map ((#) 58) flds) @ 10 # str ''    )'')))))"
    by (simp add: get_insert_query_def str_def)
  show ?thesis
    unfolding split_ws_def q a b c d by simp
qed

lemma parse_get_insert_query:
  assumes "sql_name tbl" "flds \<noteq> []" "list_all sql_name flds"
  shows "parse_insert (get_insert_query tbl flds) =
     Some \<lparr>st_conflict = Ignore, st_table = tbl, st_columns = flds, st_params = flds\<rparr>"
proof -
  have p1: "list_all plain_word flds"
    using assms(3) by (auto simp: list_all_iff sql_name_plain)
  have p2: "map ((#) 58) flds \<noteq> []" "list_all plain_word (map ((#) 58) flds)"
    using assms(2,3) by (auto simp: list_all_iff sql_name_param_plain)
  have c: "\<And>ws. parse_conflict (str ''INSERT'' # str ''OR'' # str ''IGNORE'' # ws) =
      Some (Ignore, ws)"
    by (simp add: parse_conflict_def)
  have m: "map (drop (Suc 0) \<circ> (#) 58) flds = flds"
    by (induction flds) simp_all
  have s: "list_all (\<lambda>p. startswith p (str '':'')) (map ((#) 58) flds)"
    by (induction flds) (simp_all add: str_def)
  show ?thesis
    unfolding parse_insert_def query_words [OF assms]
    by (simp add: c parse_names_words [OF assms(2) p1] parse_names_words [OF p2] m s assms(2))
qed


section \<open>The order of the writes\<close>

lemma exec_insert_log: "exec_insert st params d = Inr d' \<Longrightarrow> db_log d' = db_log d"
  by (auto simp: exec_insert_def Let_def
      split: option.splits sum.splits if_splits sqlval.splits conflict.splits)

lemma for_each_exec_insert_log:
  "db_log (snd (for_each (exec_insert st) rows d)) = db_log d"
proof (induction rows arbitrary: d)
  case Nil
  then show ?case by simp
next
  case (Cons p rows)
  show ?case
  proof (cases "exec_insert st p d")
    case (Inl e)
    then show ?thesis by simp
  next
    case (Inr d')
    with Cons.IH [of d'] exec_insert_log [OF Inr] show ?thesis by simp
  qed
qed

lemma executemany_log:
  assumes "sql_name tbl" "flds \<noteq> []" "list_all sql_name flds"
  shows "db_log (snd (executemany (get_insert_query tbl flds) rows d)) = db_log d @ [Write tbl]"
  by (simp add: executemany_def parse_get_insert_query [OF assms] for_each_exec_insert_log)

lemma insert_rows_log:
  assumes "sql_name tbl" "flds \<noteq> []" "list_all sql_name flds"
  shows "db_log (snd (insert_rows tbl flds rows d)) = db_log d @ [Write tbl]
    \<or> (fst (insert_rows tbl flds rows d) \<noteq> None
        \<and> db_log (snd (insert_rows tbl flds rows d)) = db_log d)"
  by (cases "collect rows") (simp_all add: insert_rows_def executemany_log [OF assms])

lemma emits_on_db:
  assumes "\<And>fr d. db_log (snd (f fr d)) = db_log d @ [ev]
    \<or> (fst (f fr d) \<noteq> None \<and> db_log (snd (f fr d)) = db_log d)"
  shows "emits ev (on_db f)"
  unfolding emits_def on_db_def
proof
  fix fr
  from assms [of fr "fr_db fr"]
  show "db_log (fr_db (snd (case f fr (fr_db fr) of (r, d) \<Rightarrow> (r, fr\<lparr>fr_db := d\<rparr>)))) =
          db_log (fr_db fr) @ [ev]
      \<or> (fst (case f fr (fr_db fr) of (r, d) \<Rightarrow> (r, fr\<lparr>fr_db := d\<rparr>)) \<noteq> None
          \<and> db_log (fr_db (snd (case f fr (fr_db fr) of (r, d) \<Rightarrow> (r, fr\<lparr>fr_db := d\<rparr>)))) =
              db_log (fr_db fr))"
    by (cases "f fr (fr_db fr)") simp
qed

lemma emits_read_ids:
  assumes "\<And>m fr. fr_db (assign m fr) = fr_db fr"
  shows "emits (Read tbl) (read_ids tbl field assign)"
  unfolding emits_def read_ids_def
  by (auto simp: get_items_ids_by_field_def Let_def assms split: option.splits)

lemma sql_names:
  "sql_name (str ''brands'')" "sql_name (str ''devices'')" "sql_name (str ''metros'')"
  "sql_name (str ''advantages'')" "sql_name (str ''features'')"
  "sql_name (str ''service_centers'')" "sql_name (str ''opening_hours'')"
  "sql_name (str ''gallery_images'')" "sql_name (str ''services'')"
  "sql_name (str ''locations'')" "sql_name (str ''brand_service_center'')"
  "sql_name (str ''device_service_center'')" "sql_name (str ''metro_service_center'')"
  "sql_name (str ''brand_device'')" "sql_name (str ''advantage_service_center'')"
  "sql_name (str ''feature_service_center'')"
  "sql_name (str ''slug'')" "sql_name (str ''title'')" "sql_name (str ''is_popular'')"
  "sql_name (str ''phone'')" "sql_name (str ''slogan'')" "sql_name (str ''logo'')"
  "sql_name (str ''site_url'')" "sql_name (str ''description'')"
  "sql_name (str ''service_center_id'')" "sql_name (str ''metro_id'')"
  "sql_name (str ''address'')" "sql_name (str ''coords'')" "sql_name (str ''is_primary'')"
  "sql_name (str ''weekday_from'')" "sql_name (str ''weekday_to'')"
  "sql_name (str ''time_from'')" "sql_name (str ''time_to'')"
  "sql_name (str ''device_id'')" "sql_name (str ''price'')" "sql_name (str ''image'')"
  "sql_name (str ''advantage_id'')" "sql_name (str ''feature_id'')"
  "sql_name (str ''brand_id'')"
  by (simp_all add: sql_name_def str_def)

lemma executemany_emits:
  assumes "sql_name tbl" "flds \<noteq> []" "list_all sql_name flds"
  shows "db_log (snd (executemany (get_insert_query tbl flds) rows d)) = db_log d @ [Write tbl]
    \<or> (fst (executemany (get_insert_query tbl flds) rows d) \<noteq> None
        \<and> db_log (snd (executemany (get_insert_query tbl flds) rows d)) = db_log d)"
  by (simp add: executemany_log [OF assms])

lemma emits_steps: "list_all2 emits insert_data_trace (insert_data_steps g)"
  unfolding insert_data_trace_def insert_data_steps_def
  apply (simp only: list_all2_Cons list.rel_inject list_all2_Nil simp_thms)
  apply (intro conjI emits_on_db emits_read_ids)
  apply (unfold insert_brands_def insert_devices_def insert_metros_def insert_advantages_def
      insert_features_def insert_service_centers_def
      insert_opening_hours_def insert_gallery_images_def insert_services_def
      insert_locations_def insert_service_centers_brands_def insert_service_centers_devices_def
      insert_service_centers_metros_def insert_devices_brands_def
      insert_service_centers_advantages_def insert_service_centers_features_def)
  apply ((rule executemany_emits insert_rows_log; simp add: sql_names)
      | simp add: create_schema_def commit_def)+
  done


lemma run_steps_log:
  assumes "list_all2 emits evs fs"
  shows "\<exists>n. db_log (fr_db (snd (run_steps fs fr))) = db_log (fr_db fr) @ take n evs"
  using assms
proof (induction evs fs arbitrary: fr rule: list_all2_induct)
  case Nil
  then show ?case by simp
next
  case (Cons ev evs f fs)
  obtain r fr' where f: "f fr = (r, fr')"
    by (cases "f fr")
  from Cons.hyps(1) f have l: "db_log (fr_db fr') = db_log (fr_db fr) @ [ev]
      \<or> (r \<noteq> None \<and> db_log (fr_db fr') = db_log (fr_db fr))"
    unfolding emits_def by (metis fst_conv snd_conv)
  show ?case
  proof (cases r)
    case (Some e)
    from l show ?thesis
    proof
      assume "db_log (fr_db fr') = db_log (fr_db fr) @ [ev]"
      then have "db_log (fr_db (snd (run_steps (f # fs) fr))) =
          db_log (fr_db fr) @ take 1 (ev # evs)"
        by (simp add: f Some)
      then show ?thesis by blast
    next
      assume "r \<noteq> None \<and> db_log (fr_db fr') = db_log (fr_db fr)"
      then have "db_log (fr_db (snd (run_steps (f # fs) fr))) =
          db_log (fr_db fr) @ take 0 (ev # evs)"
        by (simp add: f Some)
      then show ?thesis by blast
    qed
  next
    case None
    with l have l': "db_log (fr_db fr') = db_log (fr_db fr) @ [ev]"
      by simp
    from Cons.IH [of fr'] obtain n where
      "db_log (fr_db (snd (run_steps fs fr'))) = db_log (fr_db fr') @ take n evs"
      by blast
    then have "db_log (fr_db (snd (run_steps (f # fs) fr))) =
        db_log (fr_db fr) @ take (Suc n) (ev # evs)"
      by (simp add: f None l')
    then show ?thesis by blast
  qed
qed

lemma dependency_ordered_take:
  assumes "dependency_ordered lg"
  shows "dependency_ordered (take n lg)"
proof -
  have "write_allowed (take i (take n lg)) (take n lg ! i)"
    if "i < length (take n lg)" for i
  proof -
    from that have i: "i < length lg" "i < n" by simp_all
    then have "take i (take n lg) = take i lg" "take n lg ! i = lg ! i"
      by (simp_all add: min_def)
    with assms i show ?thesis
      by (simp add: dependency_ordered_def list_all_iff)
  qed
  then show ?thesis
    by (simp add: dependency_ordered_def list_all_iff)
qed

lemma dependency_ordered_trace: "dependency_ordered insert_data_trace"
  by code_simp

text \<open>
  C8. Of the operations that a run of \<open>insert_data\<close> adds to the record of the
  connection, whatever the registries and the store, and also when the run stops at an
  error, every write to a relationship table (opening hours, gallery images, services,
  locations and the six junction tables) comes after the writes of the five entity
  tables and a commit after them, after the write of the service centers and a commit
  after it, and after the ids of each table it refers to have been read back, that read
  coming after the write and the commit of that table.
\<close>

theorem insert_data_dependency_ordered:
  "dependency_ordered (drop (length (db_log d)) (db_log (snd (insert_data g d))))"
proof -
  let ?fr = "\<lparr>fr_db = d, sc_ids_by_slugs = [], metro_ids_by_titles = [],
    brand_ids_by_slugs = [], device_ids_by_slugs = [],
    advantage_ids_by_titles = [], feature_ids_by_titles = []\<rparr>"
  from run_steps_log [OF emits_steps, of g ?fr] obtain n where
    "db_log (fr_db (snd (run_steps (insert_data_steps g) ?fr))) =
       db_log (fr_db ?fr) @ take n insert_data_trace"
    by blast
  then have "db_log (snd (insert_data g d)) = db_log d @ take n insert_data_trace"
    by (cases "run_steps (insert_data_steps g) ?fr") (simp add: insert_data_def)
  then show ?thesis
    by (simp add: dependency_ordered_take [OF dependency_ordered_trace])
qed


section \<open>Insert or ignore\<close>

lemma map_of_zip_map_same:
  "map_of (zip xs (map f xs)) c = (if c \<in> set xs then Some (f c) else None)"
  by (induction xs) auto

lemma bind_parameters_supplied:
  assumes "list_all (\<lambda>f. case map_of params f of None \<Rightarrow> False
      | Some v \<Rightarrow> bind_error v = None) names"
  shows "bind_parameters params names = Inr (map (\<lambda>f. adapt (the (map_of params f))) names)"
  using assms by (induction names) (auto split: option.splits)

lemma bound_param_values:
  assumes "supplied flds params"
  shows "bind_parameters params flds = Inr (map (param_value flds params) flds)"
proof -
  have "map (\<lambda>f. adapt (the (map_of params f))) flds = map (param_value flds params) flds"
    using assms by (auto simp: supplied_def param_value_def list_all_iff split: option.splits)
  with bind_parameters_supplied [of params flds] assms show ?thesis
    by (simp add: supplied_def)
qed

lemma exec_insert_ignore:
  assumes "map_of (db_tables d) tbl = Some t"
    and "list_all (\<lambda>c. c \<in> set (t_columns (t_def t))) flds"
    and "list_all (\<lambda>c. t_rowid_alias (t_def t) \<noteq> Some c) flds"
    and "supplied flds params"
  shows "exec_insert \<lparr>st_conflict = Ignore, st_table = tbl, st_columns = flds, st_params = flds\<rparr>
           params d =
         Inr (with_rows tbl t (insert_step (t_def t) flds params (t_rows t)) d)"
proof -
  let ?bound = "zip flds (map (param_value flds params) flds)"
  have e: "explicit_rowid (t_def t) ?bound = None"
    using assms(3)
    by (auto simp: explicit_rowid_def map_of_zip_map_same list_all_iff split: option.splits)
  have same: "d\<lparr>db_tables := AList.update tbl t (db_tables d)\<rparr> = d"
    by (simp add: update_triv [OF assms(1)])
  show ?thesis
    using assms(1,2)
    by (simp add: exec_insert_def bound_param_values [OF assms(4)]
        e insert_step_def with_rows_def Let_def same del: map_map)
qed

lemma with_rows_tables:
  "map_of (db_tables (with_rows tbl t rs d)) tbl = Some (t\<lparr>t_rows := rs\<rparr>)"
  by (simp add: with_rows_def update_conv')

lemma with_rows_twice:
  "with_rows tbl (t\<lparr>t_rows := rs\<rparr>) rs' (with_rows tbl t rs d) = with_rows tbl t rs' d"
  by (simp add: with_rows_def)

lemma with_rows_same:
  "map_of (db_tables d) tbl = Some t \<Longrightarrow> with_rows tbl t (t_rows t) d = d"
  by (simp add: with_rows_def update_triv)

lemma for_each_exec_insert_ignore:
  assumes "list_all (\<lambda>c. c \<in> set (t_columns (t_def t))) flds"
    and "list_all (\<lambda>c. t_rowid_alias (t_def t) \<noteq> Some c) flds"
    and "list_all (supplied flds) rows"
  shows "for_each (exec_insert \<lparr>st_conflict = Ignore, st_table = tbl, st_columns = flds,
             st_params = flds\<rparr>) rows (with_rows tbl t rs d) =
         (None, with_rows tbl t (fold (insert_step (t_def t) flds) rows rs) d)"
  using assms(3)
proof (induction rows arbitrary: rs)
  case Nil
  then show ?case by simp
next
  case (Cons params rows)
  have p: "supplied flds params"
    using Cons.prems by simp
  have "exec_insert \<lparr>st_conflict = Ignore, st_table = tbl, st_columns = flds,
      st_params = flds\<rparr> params (with_rows tbl t rs d) =
      Inr (with_rows tbl t (insert_step (t_def t) flds params rs) d)"
    using exec_insert_ignore [where d = "with_rows tbl t rs d" and tbl = tbl
        and t = "t\<lparr>t_rows := rs\<rparr>" and flds = flds and params = params,
        OF with_rows_tables] assms(1,2) p
    by (simp add: with_rows_twice)
  with Cons show ?case by simp
qed


lemma fold_max_ge: "(i::int) \<le> fold max ids i"
  by (induction ids arbitrary: i) (auto intro: order_trans [OF max.cobounded2])

lemma fold_max_mem: "(x::int) \<in> set ids \<Longrightarrow> x \<le> fold max ids i"
proof (induction ids arbitrary: i)
  case Nil
  then show ?case by simp
next
  case (Cons y ids)
  show ?case
  proof (cases "x = y")
    case True
    have "y \<le> max y i" by simp
    also have "\<dots> \<le> fold max ids (max y i)" by (rule fold_max_ge)
    finally show ?thesis using True by simp
  next
    case False
    with Cons show ?thesis by simp
  qed
qed

lemma rowid_fresh: "r \<in> set rs \<Longrightarrow> rowid r < next_rowid rs"
proof -
  assume r: "r \<in> set rs"
  then obtain r0 rest where rs: "rs = r0 # rest" by (cases rs) auto
  have "rowid r \<le> fold max (map rowid rest) (rowid r0)"
  proof (cases "r = r0")
    case True
    then show ?thesis by (simp add: fold_max_ge)
  next
    case False
    with r rs have "rowid r \<in> set (map rowid rest)" by auto
    then show ?thesis by (rule fold_max_mem)
  qed
  then show ?thesis by (simp add: next_rowid_def rs)
qed

lemma param_value_outside: "c \<notin> set flds \<Longrightarrow> param_value flds params c = Null"
  by (simp add: param_value_def)

lemma column_value_new_row:
  assumes "list_all (\<lambda>c. c \<in> set (t_columns td)) flds"
    and "list_all (\<lambda>c. t_rowid_alias td \<noteq> Some c) flds"
  shows "column_value td (new_row td rs (zip flds (map (param_value flds params) flds))) c =
     (if t_rowid_alias td = Some c then Integer (next_rowid rs) else param_value flds params c)"
proof (cases "t_rowid_alias td = Some c")
  case True
  with assms(2) have "c \<notin> set flds" by (auto simp: list_all_iff)
  with True show ?thesis
    by (simp add: column_value_def new_row_def map_of_zip_map_same)
next
  case False
  show ?thesis
  proof (cases "c \<in> set flds")
    case True
    with assms(1) have "c \<in> set (t_columns td)" by (auto simp: list_all_iff)
    with True False show ?thesis
      by (simp add: column_value_def new_row_def map_of_zip_map_same map_of_map_restrict
          restrict_map_def)
  next
    case f: False
    have "(case map_of (map (\<lambda>c. (c, case map_of (zip flds (map (param_value flds params) flds)) c of
              None \<Rightarrow> Null | Some v \<Rightarrow> v))
            (filter (\<lambda>c. t_rowid_alias td \<noteq> Some c) (t_columns td))) c of
          None \<Rightarrow> Null | Some v \<Rightarrow> v) = Null"
      using f by (simp add: map_of_map_restrict restrict_map_def map_of_zip_map_same)
    with False f show ?thesis
      by (simp add: column_value_def new_row_def param_value_outside)
  qed
qed

lemma violates_not_null_new_row:
  assumes "list_all (\<lambda>c. c \<in> set (t_columns td)) flds"
    and "list_all (\<lambda>c. t_rowid_alias td \<noteq> Some c) flds"
  shows "violates_not_null td (new_row td rs (zip flds (map (param_value flds params) flds))) =
     lacks_required td flds params"
  by (auto simp: violates_not_null_def lacks_required_def list_ex_iff
      column_value_new_row [OF assms])

lemma violates_unique_new_row:
  assumes "list_all (\<lambda>c. c \<in> set (t_columns td)) flds"
    and "list_all (\<lambda>c. t_rowid_alias td \<noteq> Some c) flds"
  shows "violates_unique td rs (new_row td rs (zip flds (map (param_value flds params) flds))) =
     already_present td rs flds params"
proof -
  have k: "same_key td u (new_row td rs (zip flds (map (param_value flds params) flds))) r =
      list_all (\<lambda>c. param_value flds params c \<noteq> Null
        \<and> column_value td r c = param_value flds params c) u"
    if "r \<in> set rs" for u r
  proof (cases "\<exists>a \<in> set u. t_rowid_alias td = Some a")
    case True
    then obtain a where a: "a \<in> set u" "t_rowid_alias td = Some a" by blast
    with assms(2) have "a \<notin> set flds" by (auto simp: list_all_iff)
    then have "param_value flds params a = Null" by (rule param_value_outside)
    with a have r: "\<not> list_all (\<lambda>c. param_value flds params c \<noteq> Null
        \<and> column_value td r c = param_value flds params c) u"
      by (auto simp: list_all_iff)
    have "column_value td r a = Integer (rowid r)"
      using a by (simp add: column_value_def)
    moreover have "rowid r \<noteq> next_rowid rs"
      using rowid_fresh [OF that] by simp
    ultimately have "column_value td r a \<noteq>
        column_value td (new_row td rs (zip flds (map (param_value flds params) flds))) a"
      using a by (simp add: column_value_new_row [OF assms])
    with a(1) have "\<not> same_key td u
        (new_row td rs (zip flds (map (param_value flds params) flds))) r"
      unfolding same_key_def list_all_iff by blast
    with r show ?thesis by simp
  next
    case False
    then show ?thesis
      by (auto simp: same_key_def list_all_iff column_value_new_row [OF assms])
  qed
  show ?thesis
    unfolding violates_unique_def already_present_def list_ex_iff
    using k by auto
qed

lemma insert_step_unfold:
  assumes "list_all (\<lambda>c. c \<in> set (t_columns td)) flds"
    and "list_all (\<lambda>c. t_rowid_alias td \<noteq> Some c) flds"
  shows "insert_step td flds params rs =
     (if lacks_required td flds params \<or> already_present td rs flds params then rs
      else rs @ [new_row td rs (zip flds (map (param_value flds params) flds))])"
  by (simp add: insert_step_def Let_def violates_not_null_new_row [OF assms]
      violates_unique_new_row [OF assms])








lemma executemany_ignore:
  assumes "sql_name tbl" "flds \<noteq> []" "list_all sql_name flds"
    and "map_of (db_tables d) tbl = Some t"
    and "list_all (\<lambda>c. c \<in> set (t_columns (t_def t))) flds"
    and "list_all (\<lambda>c. t_rowid_alias (t_def t) \<noteq> Some c) flds"
    and "list_all (supplied flds) rows"
  shows "executemany (get_insert_query tbl flds) rows d =
     (None, with_rows tbl t (fold (insert_step (t_def t) flds) rows (t_rows t))
        (d\<lparr>db_log := db_log d @ [Write tbl]\<rparr>))"
proof -
  let ?d = "d\<lparr>db_log := db_log d @ [Write tbl]\<rparr>"
  have "map_of (db_tables ?d) tbl = Some t"
    using assms(4) by simp
  then have "with_rows tbl t (t_rows t) ?d = ?d"
    by (rule with_rows_same)
  with for_each_exec_insert_ignore [OF assms(5,6,7), of tbl "t_rows t" ?d]
  show ?thesis
    by (simp add: executemany_def parse_get_insert_query [OF assms(1,2,3)])
qed








section \<open>Unresolved keys\<close>

lemma example_sc_row_ignored:
  "insert_service_centers (example_globals None) example_sc_db =
     (None, example_sc_db\<lparr>db_log := [Write (str ''service_centers'')]\<rparr>)"
proof -
  let ?flds = "[str ''slug'', str ''title'', str ''phone'', str ''slogan'', str ''logo'',
    str ''site_url'', str ''description'']"
  let ?td = "\<lparr>t_columns = [str ''id'', str ''slug'', str ''title'', str ''phone'',
                      str ''slogan'', str ''logo'', str ''site_url'', str ''description''],
                    t_rowid_alias = Some (str ''id''),
                    t_not_null = [str ''slug'', str ''title'', str ''phone''],
                    t_unique = [[str ''slug'']]\<rparr>"
  let ?t = "\<lparr>t_def = ?td, t_rows = []\<rparr>"
  let ?rows = "[service_center_params (example_service_center None)]"
  have h1: "sql_name (str ''service_centers'')" "?flds \<noteq> []" "list_all sql_name ?flds"
    by (simp_all add: sql_names)
  have h4: "map_of (db_tables example_sc_db) (str ''service_centers'') = Some ?t"
    by (simp add: example_sc_db_def)
  have h5: "list_all (\<lambda>c. c \<in> set (t_columns (t_def ?t))) ?flds"
    by code_simp
  have h6: "list_all (\<lambda>c. t_rowid_alias (t_def ?t) \<noteq> Some c) ?flds"
    by code_simp
  have h7: "list_all (supplied ?flds) ?rows"
    by (simp add: supplied_def bind_error_def service_center_params_def
        example_service_center_def new_service_center_def opt_str_def str_def)
  have l: "lacks_required ?td ?flds (service_center_params (example_service_center None))"
    by code_simp
  have "insert_step ?td ?flds (service_center_params (example_service_center None)) [] = []"
    using insert_step_unfold [of ?td ?flds] h5 h6 l by simp
  then show ?thesis
    using executemany_ignore [OF h1 h4 h5 h6 h7] h4
    by (simp add: insert_service_centers_def example_globals_def empty_globals_def
        with_rows_def update_triv example_sc_db_def)
qed


lemma example_location_row_ignored:
  "insert_locations (example_globals (Some (str ''7812''))) [(PyStr (str ''fixit''), PyInt 1)] []
       example_locations_db =
     (None, example_locations_db\<lparr>db_log := [Write (str ''locations'')]\<rparr>)"
proof -
  let ?flds = "[str ''service_center_id'', str ''metro_id'', str ''address'', str ''coords'',
    str ''is_primary'']"
  let ?td = "\<lparr>t_columns = [str ''id'', str ''service_center_id'', str ''metro_id'',
                      str ''address'', str ''coords'', str ''is_primary''],
                    t_rowid_alias = Some (str ''id''),
                    t_not_null = [str ''service_center_id'', str ''metro_id'',
                      str ''address'', str ''is_primary''],
                    t_unique = [[str ''service_center_id'', str ''metro_id'',
                      str ''address'']]\<rparr>"
  let ?t = "\<lparr>t_def = ?td, t_rows = []\<rparr>"
  let ?row = "[(str ''service_center_id'', PyInt 1), (str ''metro_id'', PyNone),
    (str ''address'', PyStr (str ''Nevsky 1'')), (str ''coords'', PyNone),
    (str ''is_primary'', PyBool False)]"
  have c: "collect (concat (map (\<lambda>(sc_slug, sc).
          map (\<lambda>loc.
                 with_id (str ''service_center_id'')
                   (subscript [(PyStr (str ''fixit''), PyInt 1)] sc_slug)
                   [(str ''metro_id'', dict_get [] (metro loc)),
                    (str ''address'', PyStr (address loc)),
                    (str ''coords'', opt_str (coords loc)),
                    (str ''is_primary'', PyBool (is_primary loc))])
            (sc_locations sc))
        (service_centers (example_globals (Some (str ''7812'')))))) = Inr [?row]"
    by (simp add: example_globals_def example_service_center_def new_service_center_def
        empty_globals_def with_id_def subscript_def dict_get_def opt_str_def)
  have h1: "sql_name (str ''locations'')" "?flds \<noteq> []" "list_all sql_name ?flds"
    by (simp_all add: sql_names)
  have h4: "map_of (db_tables example_locations_db) (str ''locations'') = Some ?t"
    by (simp add: example_locations_db_def)
  have h5: "list_all (\<lambda>c. c \<in> set (t_columns (t_def ?t))) ?flds"
    by code_simp
  have h6: "list_all (\<lambda>c. t_rowid_alias (t_def ?t) \<noteq> Some c) ?flds"
    by code_simp
  have h7: "list_all (supplied ?flds) [?row]"
    by (simp add: supplied_def bind_error_def str_def)
  have l: "lacks_required ?td ?flds ?row"
    by code_simp
  have "insert_step ?td ?flds ?row [] = []"
    using insert_step_unfold [of ?td ?flds] h5 h6 l by simp
  then show ?thesis
    using executemany_ignore [OF h1 h4 h5 h6 h7] h4
    by (simp add: insert_locations_def insert_rows_def c
        with_rows_def update_triv example_locations_db_def)
qed

text \<open>
  C7 fails on the code. A service center whose detail page had no phone is not stored
  (its row lacks a \<open>NOT NULL\<close> value and is ignored), so the dictionary of ids read
  back has no entry for its slug; the relationship inserts subscript that dictionary, and
  the \<open>KeyError\<close> is raised before \<open>executemany\<close> is called: the store is as it
  was, and nothing of that table is written. The same holds for a metro title that is
  missing from the dictionary of metro ids in \<open>insert_service_centers_metros\<close>. Only
  the metro of a location is looked up with \<open>get\<close>: that row alone is dropped, by
  the store, and no error is raised.
\<close>

theorem missing_key_raises:
  "insert_service_centers (example_globals None) example_sc_db =
     (None, example_sc_db\<lparr>db_log := [Write (str ''service_centers'')]\<rparr>)
   \<and> get_items_ids_by_field (example_sc_db\<lparr>db_log := [Write (str ''service_centers'')]\<rparr>)
       (str ''service_centers'') (str ''slug'') =
     (Inr [], example_sc_db\<lparr>db_log :=
        [Write (str ''service_centers''), Read (str ''service_centers'')]\<rparr>)
   \<and> insert_service_centers_devices (example_globals None) []
       [(PyStr (str ''phones''), PyInt 1)] d =
     (Some (KeyError (str ''fixit'')), d)
   \<and> insert_service_centers_metros (example_globals None) []
       [(PyStr (str ''zenit''), PyInt 1)] d =
     (Some (KeyError (str ''fixit'')), d)
   \<and> insert_service_centers_metros (example_globals (Some (str ''7812'')))
       [(PyStr (str ''fixit''), PyInt 1)] [] d =
     (Some (KeyError (str ''zenit'')), d)
   \<and> insert_locations (example_globals (Some (str ''7812'')))
       [(PyStr (str ''fixit''), PyInt 1)] [] example_locations_db =
     (None, example_locations_db\<lparr>db_log := [Write (str ''locations'')]\<rparr>)"
proof (intro conjI)
  show "insert_service_centers (example_globals None) example_sc_db =
     (None, example_sc_db\<lparr>db_log := [Write (str ''service_centers'')]\<rparr>)"
    by (rule example_sc_row_ignored)
  show "get_items_ids_by_field (example_sc_db\<lparr>db_log := [Write (str ''service_centers'')]\<rparr>)
       (str ''service_centers'') (str ''slug'') =
     (Inr [], example_sc_db\<lparr>db_log :=
        [Write (str ''service_centers''), Read (str ''service_centers'')]\<rparr>)"
    by (simp add: get_items_ids_by_field_def example_sc_db_def Let_def)
  show "insert_service_centers_devices (example_globals None) []
       [(PyStr (str ''phones''), PyInt 1)] d =
     (Some (KeyError (str ''fixit'')), d)"
    by (simp add: insert_service_centers_devices_def insert_rows_def example_globals_def
        example_service_center_def new_service_center_def empty_globals_def two_ids_def
        subscript_def)
  show "insert_service_centers_metros (example_globals None) []
       [(PyStr (str ''zenit''), PyInt 1)] d =
     (Some (KeyError (str ''fixit'')), d)"
    by (simp add: insert_service_centers_metros_def insert_rows_def example_globals_def
        example_service_center_def new_service_center_def empty_globals_def two_ids_def
        subscript_def)
  show "insert_service_centers_metros (example_globals (Some (str ''7812'')))
       [(PyStr (str ''fixit''), PyInt 1)] [] d =
     (Some (KeyError (str ''zenit'')), d)"
    by (simp add: insert_service_centers_metros_def insert_rows_def example_globals_def
        example_service_center_def new_service_center_def empty_globals_def two_ids_def
        subscript_def)
  show "insert_locations (example_globals (Some (str ''7812'')))
       [(PyStr (str ''fixit''), PyInt 1)] [] example_locations_db =
     (None, example_locations_db\<lparr>db_log := [Write (str ''locations'')]\<rparr>)"
    by (rule example_location_row_ignored)
qed
end
